theory Spec2Isabelle
  imports Complex_Main "HOL-Library.Multiset" "HOL-Library.Char_ord" "HOL-Library.List_Lexorder"
begin

section \<open>Strings as the backend handles them\<close>

text \<open>
  A JavaScript string is modelled as a \<^typ>\<open>string\<close> whose characters are the code
  units below 256 (Latin-1). On these, \<open>\s\<close> of a regular expression and the white
  space removed by \<open>trim\<close> are the code units 9 to 13, 32 and 160, and
  \<open>toLowerCase\<close> moves \<open>A-Z\<close> and \<open>U+00C0-U+00DE\<close> (without the
  multiplication sign U+00D7) up by 32.
\<close>

definition isSpace :: "char \<Rightarrow> bool" where
  "isSpace c = (let n = (of_char c :: nat) in (9 \<le> n \<and> n \<le> 13) \<or> n = 32 \<or> n = 160)"

definition toLowerChar :: "char \<Rightarrow> char" where
  "toLowerChar c =
     (let n = (of_char c :: nat)
      in if (65 \<le> n \<and> n \<le> 90) \<or> (192 \<le> n \<and> n \<le> 222 \<and> n \<noteq> 215)
         then char_of (n + 32) else c)"

definition toLowerCase :: "string \<Rightarrow> string" where
  "toLowerCase s = map toLowerChar s"

definition trim :: "string \<Rightarrow> string" where
  "trim s = rev (dropWhile isSpace (rev (dropWhile isSpace s)))"

text \<open>
  \<open>s.split(/\s+/)\<close>: every maximal run of white space is one separator. A
  separator at the start or at the end of the string leaves an empty string on
  that side, and the empty string splits into one empty string.
\<close>

function split_ws_from :: "string \<Rightarrow> string \<Rightarrow> string list" where
  "split_ws_from acc [] = [rev acc]"
| "split_ws_from acc (c # cs) =
     (if isSpace c then rev acc # split_ws_from [] (dropWhile isSpace cs)
      else split_ws_from (c # acc) cs)"
  by pat_completeness auto
termination
  by (relation "measure (\<lambda>(acc, s). length s)")
     (auto simp: le_imp_less_Suc length_dropWhile_le)

definition split_ws :: "string \<Rightarrow> string list" where
  "split_ws s = split_ws_from [] s"

section \<open>Specialization model: symptom matching\<close>

text \<open>
  The fields of a specialization document that the two aggregations read.
  A weight is a JavaScript number; it is modelled as a rational, so the rounding
  of double arithmetic is not part of the model.
\<close>

record symptomEntry =
  symptom :: string
  keywordList :: "string list"
  weight :: rat

record urgencyKeyword =
  keyword :: string
  urgencyLevel :: string

record specialization =
  name :: string
  commonSymptoms :: "symptomEntry list"
  urgencyKeywords :: "urgencyKeyword list"
  isActive :: bool




text \<open>
  The pipeline of \<open>getUrgencyLevel\<close>: \<open>$unwind urgencyKeywords\<close>, \<open>$match\<close> on
  \<open>isActive\<close> and on the keyword being one of the words, \<open>$group\<close> with \<open>$max\<close>
  over the level strings. Strings are compared code unit by code unit. The
  result array is empty when nothing matches, else it holds one document whose
  \<open>maxUrgency\<close> is returned here.
\<close>

definition unwindUrgency :: "specialization list \<Rightarrow> (specialization \<times> urgencyKeyword) list" where
  "unwindUrgency coll = concat (map (\<lambda>d. map (\<lambda>k. (d, k)) (urgencyKeywords d)) coll)"

definition matchedLevels :: "specialization list \<Rightarrow> string \<Rightarrow> string list" where
  "matchedLevels coll symptoms =
     (let symptomText = toLowerCase symptoms
      in map (\<lambda>p. urgencyLevel (snd p))
           (filter (\<lambda>p. isActive (fst p) \<and> keyword (snd p) \<in> set (split_ws symptomText))
                   (unwindUrgency coll)))"

fun maxString :: "string list \<Rightarrow> string option" where
  "maxString [] = None"
| "maxString (x # xs) = (case maxString xs of None \<Rightarrow> Some x | Some m \<Rightarrow> Some (max x m))"

definition getUrgencyLevel :: "specialization list \<Rightarrow> string \<Rightarrow> string list" where
  "getUrgencyLevel coll symptoms =
     (case maxString (matchedLevels coll symptoms) of None \<Rightarrow> [] | Some m \<Rightarrow> [m])"




text \<open>Sample documents: seven specializations, one of them inactive.\<close>

definition sampleSpec :: "string \<Rightarrow> string list \<Rightarrow> rat \<Rightarrow> string \<Rightarrow> bool \<Rightarrow> specialization" where
  "sampleSpec n kws w lvl act =
     \<lparr>name = n,
      commonSymptoms = [\<lparr>symptom = n, keywordList = kws, weight = w\<rparr>],
      urgencyKeywords = [\<lparr>keyword = hd kws, urgencyLevel = lvl\<rparr>],
      isActive = act\<rparr>"

definition sampleColl :: "specialization list" where
  "sampleColl =
     [sampleSpec ''Cardiology'' [''chest'', ''pain''] 2 ''high'' True,
      sampleSpec ''Neurology'' [''headache'', ''pain''] 1 ''medium'' True,
      sampleSpec ''Orthopedics'' [''pain'', ''joint''] 3 ''low'' True,
      sampleSpec ''Dermatology'' [''rash''] 5 ''low'' True,
      sampleSpec ''Pulmonology'' [''chest'', ''cough''] (1/2) ''medium'' True,
      sampleSpec ''Gastroenterology'' [''pain'', ''stomach''] 5 ''medium'' True,
      sampleSpec ''General Medicine'' [''pain'', ''chest'', ''fever''] 1 ''low'' True,
      sampleSpec ''Oncology'' [''pain''] 10 ''urgent'' False]"

section \<open>What a request handler produces\<close>

text \<open>
  A handler either sends a JSON response with a status code
  (\<open>res.status(c).json(new ApiResponse(c, data, message))\<close>), or throws an
  \<open>ApiError\<close> carrying a status code, or lets another exception escape to the
  framework.
\<close>

datatype outcome = Json nat string | ApiError nat string | Thrown string

section \<open>Appointment model\<close>

text \<open>
  The appointment document with the fields that the save hook, the conflict
  query and the cancellation read or write. Dates are milliseconds since the
  epoch. A string field holds its value after the setters of the schema
  (\<open>trim\<close>) have run, and the empty string when it is absent. The references
  and the date are always present in the model. The remaining fields of the
  schema (summary, reason for visit, priority, payment status, notes, AI
  recommendation) carry validators of the same per-field kind and are left out.
\<close>

record appointment =
  a_id :: nat
  patient :: nat
  doctor :: nat
  appointmentDate :: int
  startTime :: string
  endTime :: string
  symptoms :: string
  a_status :: string
  consultationFee :: rat
  cancelledAt :: "int option"
  cancelledBy :: "string option"
  cancellationReason :: "string option"

definition isDigit :: "char \<Rightarrow> bool" where
  "isDigit c = (CHR ''0'' \<le> c \<and> c \<le> CHR ''9'')"

text \<open>The pattern \<open>/^([0-1]?[0-9]|2[0-3]):[0-5][0-9]$/\<close> of the two time fields.\<close>

fun matchesTime :: "string \<Rightarrow> bool" where
  "matchesTime [h, c, m1, m2] =
     (isDigit h \<and> c = CHR '':'' \<and> CHR ''0'' \<le> m1 \<and> m1 \<le> CHR ''5'' \<and> isDigit m2)"
| "matchesTime [h1, h2, c, m1, m2] =
     ((((h1 = CHR ''0'' \<or> h1 = CHR ''1'') \<and> isDigit h2)
        \<or> (h1 = CHR ''2'' \<and> CHR ''0'' \<le> h2 \<and> h2 \<le> CHR ''3''))
      \<and> c = CHR '':'' \<and> CHR ''0'' \<le> m1 \<and> m1 \<le> CHR ''5'' \<and> isDigit m2)"
| "matchesTime _ = False"

definition appointmentStatuses :: "string list" where
  "appointmentStatuses =
     [''scheduled'', ''confirmed'', ''in-progress'', ''completed'', ''cancelled'',
      ''no-show'', ''rescheduled'']"

definition cancelledByValues :: "string list" where
  "cancelledByValues = [''patient'', ''doctor'', ''admin'', ''system'']"

text \<open>The per-field validators of the schema: required, match, maxlength, enum, min.\<close>

definition validateAppointment :: "appointment \<Rightarrow> bool" where
  "validateAppointment a =
     (startTime a \<noteq> [] \<and> matchesTime (startTime a)
      \<and> endTime a \<noteq> [] \<and> matchesTime (endTime a)
      \<and> symptoms a \<noteq> [] \<and> length (symptoms a) \<le> 1000
      \<and> a_status a \<in> set appointmentStatuses
      \<and> 0 \<le> consultationFee a
      \<and> (case cancelledBy a of None \<Rightarrow> True | Some w \<Rightarrow> w \<in> set cancelledByValues)
      \<and> (case cancellationReason a of None \<Rightarrow> True | Some r \<Rightarrow> length r \<le> 300))"

definition bookedStatuses :: "string list" where
  "bookedStatuses = [''scheduled'', ''confirmed'', ''in-progress'']"

text \<open>
  \<open>checkConflict\<close>: the query for appointments of the doctor on exactly this
  date, in a booked status, whose start is below the given end and whose end is
  above the given start, both compared as strings; the appointment with the
  excluded id is not counted.
\<close>

definition checkConflict ::
  "appointment list \<Rightarrow> nat \<Rightarrow> int \<Rightarrow> string \<Rightarrow> string \<Rightarrow> nat option \<Rightarrow> bool" where
  "checkConflict coll doctorId date startT endT excludeAppointmentId =
     (let conflictingAppointments =
            filter (\<lambda>b. doctor b = doctorId \<and> appointmentDate b = date
                         \<and> a_status b \<in> set bookedStatuses
                         \<and> startTime b < endT \<and> endTime b > startT
                         \<and> (case excludeAppointmentId of None \<Rightarrow> True
                             | Some i \<Rightarrow> a_id b \<noteq> i)) coll
      in length conflictingAppointments > 0)"

text \<open>
  A document being saved is new when the collection holds no document with its
  id; a path of it is modified when its value differs from the stored one.
\<close>

definition findById :: "appointment list \<Rightarrow> nat \<Rightarrow> appointment option" where
  "findById coll i = find (\<lambda>b. a_id b = i) coll"

definition isNew :: "appointment list \<Rightarrow> appointment \<Rightarrow> bool" where
  "isNew coll a = (findById coll (a_id a) = None)"

definition isModifiedDate :: "appointment list \<Rightarrow> appointment \<Rightarrow> bool" where
  "isModifiedDate coll a =
     (case findById coll (a_id a) of None \<Rightarrow> False
      | Some b \<Rightarrow> appointmentDate b \<noteq> appointmentDate a)"

definition isModifiedTimeSlot :: "appointment list \<Rightarrow> appointment \<Rightarrow> bool" where
  "isModifiedTimeSlot coll a =
     (case findById coll (a_id a) of None \<Rightarrow> False
      | Some b \<Rightarrow> startTime b \<noteq> startTime a \<or> endTime b \<noteq> endTime a)"

definition hookApplies :: "appointment list \<Rightarrow> appointment \<Rightarrow> bool" where
  "hookApplies coll a = (isNew coll a \<or> isModifiedDate coll a \<or> isModifiedTimeSlot coll a)"

text \<open>The \<open>pre('save')\<close> hook: the error it passes to \<open>next\<close>, if any.\<close>

definition preSave :: "appointment list \<Rightarrow> int \<Rightarrow> appointment \<Rightarrow> string option" where
  "preSave coll now a =
     (if hookApplies coll a then
        (if appointmentDate a < now
         then Some ''Appointment cannot be scheduled in the past''
         else if checkConflict coll (doctor a) (appointmentDate a) (startTime a) (endTime a)
                   (Some (a_id a))
         then Some ''Time slot is already booked''
         else None)
      else None)"

definition storeAppointment :: "appointment list \<Rightarrow> appointment \<Rightarrow> appointment list" where
  "storeAppointment coll a =
     (if isNew coll a then coll @ [a]
      else map (\<lambda>b. if a_id b = a_id a then a else b) coll)"

text \<open>
  \<open>save\<close>: the field validators run first, then the hook; only when both pass
  is the document written. The result is the error, if any, and the collection
  afterwards. The validators are run on every field of the model; a field that
  a save leaves untouched passed them when it was stored.
\<close>

definition saveAppointment ::
  "appointment list \<Rightarrow> int \<Rightarrow> appointment \<Rightarrow> string option \<times> appointment list" where
  "saveAppointment coll now a =
     (if \<not> validateAppointment a then (Some ''Appointment validation failed'', coll)
      else (case preSave coll now a of
              Some e \<Rightarrow> (Some e, coll)
            | None \<Rightarrow> (None, storeAppointment coll a)))"

text \<open>
  \<open>cancelAppointment\<close>. An absent reason is the empty string; the \<open>trim\<close>
  setter of the schema is applied to the stored reason.
\<close>

definition cancelAppointment ::
  "appointment list \<Rightarrow> int \<Rightarrow> nat \<Rightarrow> nat \<Rightarrow> string \<Rightarrow> outcome \<times> appointment list" where
  "cancelAppointment coll now userId appointmentId reason =
     (case find (\<lambda>a. a_id a = appointmentId \<and> patient a = userId
                      \<and> a_status a \<in> set [''scheduled'', ''confirmed'']) coll of
        None \<Rightarrow> (ApiError 404 ''Appointment not found or cannot be cancelled'', coll)
      | Some appointment \<Rightarrow>
          (let timeDiff = appointmentDate appointment - now;
               hoursDiff = (of_int timeDiff :: rat) / (1000 * 3600)
           in if hoursDiff < 2
              then (ApiError 400
                ''Appointments can only be cancelled at least 2 hours before the scheduled time'',
                coll)
              else (let cancelled = appointment
                          \<lparr>a_status := ''cancelled'',
                           cancelledAt := Some now,
                           cancelledBy := Some ''patient'',
                           cancellationReason :=
                             Some (trim (if reason = [] then ''Cancelled by patient'' else reason))\<rparr>
                    in (case saveAppointment coll now cancelled of
                          (Some e, coll') \<Rightarrow> (Thrown e, coll')
                        | (None, coll') \<Rightarrow>
                            (Json 200 ''Appointment cancelled successfully'', coll')))))"

text \<open>
  Double booking, with the overlap test of the conflict query: two stored
  appointments of one doctor on the same date, both in a booked status, whose
  time slots overlap as strings.
\<close>

definition overlaps :: "appointment \<Rightarrow> appointment \<Rightarrow> bool" where
  "overlaps a b = (startTime a < endTime b \<and> endTime a > startTime b)"

definition isBooked :: "appointment \<Rightarrow> bool" where
  "isBooked a = (a_status a \<in> set bookedStatuses)"

definition noDoubleBooking :: "appointment list \<Rightarrow> bool" where
  "noDoubleBooking coll =
     (\<forall>a \<in> set coll. \<forall>b \<in> set coll.
        a_id a \<noteq> a_id b \<and> doctor a = doctor b \<and> appointmentDate a = appointmentDate b
        \<and> isBooked a \<and> isBooked b \<longrightarrow> \<not> overlaps a b)"

definition distinctIds :: "appointment list \<Rightarrow> bool" where
  "distinctIds coll = distinct (map a_id coll)"

text \<open>Sample appointments of doctor 7 on one date.\<close>

definition sampleAppt :: "nat \<Rightarrow> string \<Rightarrow> string \<Rightarrow> string \<Rightarrow> appointment" where
  "sampleAppt i st en stat =
     \<lparr>a_id = i, patient = 1, doctor = 7, appointmentDate = 1800000000000,
      startTime = st, endTime = en, symptoms = ''cough'', a_status = stat,
      consultationFee = 500, cancelledAt = None, cancelledBy = None,
      cancellationReason = None\<rparr>"

definition sampleAppts :: "appointment list" where
  "sampleAppts =
     [sampleAppt 1 ''10:00'' ''11:00'' ''cancelled'',
      sampleAppt 2 ''10:00'' ''11:00'' ''scheduled'']"

text \<open>
  A history of the sample collection: appointment 1 is booked and cancelled by
  its patient, appointment 2 is booked into the freed slot, and appointment 1 is
  then saved again with only its status set back to \<open>scheduled\<close>.
\<close>

definition afterBooking1 :: "appointment list" where
  "afterBooking1 = snd (saveAppointment [] 1700000000000 (sampleAppt 1 ''10:00'' ''11:00'' ''scheduled''))"

definition afterCancel1 :: "appointment list" where
  "afterCancel1 = snd (cancelAppointment afterBooking1 1700000000000 1 1 [])"

definition afterBooking2 :: "appointment list" where
  "afterBooking2 = snd (saveAppointment afterCancel1 1700000000000 (sampleAppt 2 ''10:00'' ''11:00'' ''scheduled''))"

definition rebooked1 :: appointment where
  "rebooked1 = (hd afterBooking2)\<lparr>a_status := ''scheduled''\<rparr>"

section \<open>User model: the email OTP workflow\<close>

text \<open>
  Modelled from the spec: the revision of the user schema that declares the
  paths \<open>emailOTP\<close> and \<open>emailOTPExpiry\<close>. The user model among the sources is
  the revision that belongs to the earlier controller and its verification
  tokens; it declares neither path, while the controller of the OTP workflow,
  the routes and the API guide of the repository all work with them. The record
  holds these two paths as the controller uses them (a string and a date, both
  optional), next to the fields of the schema that the OTP handlers and the
  authentication middleware read. The remaining profile fields take no part in
  these handlers and are left out. Times are milliseconds since the epoch.
\<close>

record userDoc =
  u_id :: nat
  firstName :: string
  email :: string
  phone :: string
  u_isActive :: bool
  isEmailVerified :: bool
  emailOTP :: "string option"
  emailOTPExpiry :: "int option"


definition findUserById :: "userDoc list \<Rightarrow> nat \<Rightarrow> userDoc option" where
  "findUserById coll i = find (\<lambda>u. u_id u = i) coll"







section \<open>The authentication middleware\<close>

text \<open>
  \<open>jwt.verify(token, JWT_SECRET)\<close> is a parameter: it gives the decoded payload's
  \<open>id\<close> (none when the payload has no id) or throws one of the three errors of
  the library. The ids are those of user documents, as the tokens that the
  server signs carry them. A request carries the token cookie and the
  Authorization header, each possibly absent.
\<close>

datatype jwtResult = Decoded "nat option" | JsonWebTokenError | TokenExpiredError | NotBeforeError

record request =
  cookieToken :: "string option"
  authorization :: "string option"

text \<open>\<open>h.replace("Bearer ", "")\<close> removes the first occurrence of the pattern.\<close>

fun removeFirst :: "string \<Rightarrow> string \<Rightarrow> string" where
  "removeFirst pat [] = []"
| "removeFirst pat (c # cs) =
     (if take (length pat) (c # cs) = pat then drop (length pat) (c # cs)
      else c # removeFirst pat cs)"

text \<open>
  \<open>req.cookies?.token || req.header("Authorization")?.replace("Bearer ", "")\<close>:
  an empty cookie is falsy, and so is an empty result, which the test
  \<open>!token\<close> treats like an absent one.
\<close>

definition requestToken :: "request \<Rightarrow> string option" where
  "requestToken req =
     (case cookieToken req of
        Some t \<Rightarrow> if t \<noteq> [] then Some t
                  else map_option (removeFirst ''Bearer '') (authorization req)
      | None \<Rightarrow> map_option (removeFirst ''Bearer '') (authorization req))"

definition authenticate ::
  "(string \<Rightarrow> jwtResult) \<Rightarrow> userDoc list \<Rightarrow> request \<Rightarrow> outcome + userDoc" where
  "authenticate verify users req =
     (case requestToken req of
        None \<Rightarrow> Inl (ApiError 401 ''Access token is required'')
      | Some token \<Rightarrow>
          if token = [] then Inl (ApiError 401 ''Access token is required'')
          else (case verify token of
                  JsonWebTokenError \<Rightarrow> Inl (ApiError 401 ''Invalid access token'')
                | TokenExpiredError \<Rightarrow> Inl (ApiError 401 ''Access token has expired'')
                | NotBeforeError \<Rightarrow> Inl (ApiError 401 ''Access token not active'')
                | Decoded decodedId \<Rightarrow>
                    (case Option.bind decodedId (findUserById users) of
                       None \<Rightarrow> Inl (ApiError 401 ''Invalid access token'')
                     | Some user \<Rightarrow>
                         if \<not> u_isActive user
                         then Inl (ApiError 403 ''Account has been deactivated'')
                         else Inr user)))"

text \<open>
  A protected route: \<open>authenticate\<close> is mounted before the handler, which runs
  with \<open>req.user\<close> only when the middleware calls \<open>next()\<close>.
\<close>

definition protectedRoute ::
  "(string \<Rightarrow> jwtResult) \<Rightarrow> userDoc list \<Rightarrow> (userDoc \<Rightarrow> outcome) \<Rightarrow> request \<Rightarrow> outcome" where
  "protectedRoute verify users handler req =
     (case authenticate verify users req of Inl e \<Rightarrow> e | Inr user \<Rightarrow> handler user)"

text \<open>Sample users and a sample token verifier.\<close>

definition sampleUser :: "nat \<Rightarrow> bool \<Rightarrow> userDoc" where
  "sampleUser i act =
     \<lparr>u_id = i, firstName = ''Asha'', email = ''asha@example.com'', phone = ''+919999999999'',
      u_isActive = act, isEmailVerified = False, emailOTP = Some ''123456'',
      emailOTPExpiry = Some 1700000600000\<rparr>"

definition sampleUsers :: "userDoc list" where
  "sampleUsers = [sampleUser 1 True, (sampleUser 2 False)\<lparr>email := ''b@example.com'', phone := ''+918888888888''\<rparr>]"

definition sampleVerify :: "string \<Rightarrow> jwtResult" where
  "sampleVerify t =
     (if t = ''tok1'' then Decoded (Some 1)
      else if t = ''tok2'' then Decoded (Some 2)
      else if t = ''tok9'' then Decoded (Some 9)
      else if t = ''old'' then TokenExpiredError
      else JsonWebTokenError)"


section \<open>Conversation model and the chat controller\<close>

text \<open>
  The conversation document with the fields that decide or record the state of a
  chat session. The payload fields \<open>extractedData\<close> and \<open>aiContext\<close>, which
  the controller copies from the agent's reply and never reads for a decision,
  and the generated message ids are left out. Times are milliseconds since the
  epoch.
\<close>

record message =
  sender :: string
  content :: string
  messageType :: string
  agentType :: "string option"
  confidence :: "rat option"
  timestamp :: int

record conversation =
  c_user :: nat
  conversationId :: string
  c_status :: string
  currentStep :: string
  messages :: "message list"
  sessionTimeout :: int
  c_isActive :: bool
  completedAt :: "int option"
  c_appointmentId :: "nat option"
  errorLog :: "(string \<times> string \<times> int) list"

definition conversationStatuses :: "string list" where
  "conversationStatuses =
     [''started'', ''gathering_symptoms'', ''analyzing_symptoms'', ''recommending_doctor'',
      ''confirming_doctor'', ''checking_availability'', ''selecting_slot'',
      ''confirming_appointment'', ''completed'', ''cancelled'', ''error'']"

definition conversationSteps :: "string list" where
  "conversationSteps =
     [''initial_greeting'', ''symptom_collection'', ''symptom_clarification'',
      ''doctor_recommendation'', ''doctor_confirmation'', ''slot_selection'',
      ''appointment_confirmation'', ''completed'']"

definition senders :: "string list" where
  "senders = [''user'', ''agent'', ''system'']"

definition messageTypes :: "string list" where
  "messageTypes = [''text'', ''options'', ''confirmation'', ''error'', ''system'']"

definition validMessage :: "message \<Rightarrow> bool" where
  "validMessage m =
     (sender m \<in> set senders \<and> content m \<noteq> [] \<and> messageType m \<in> set messageTypes)"

text \<open>The per-field validators of the conversation schema: required and enum.\<close>

definition validateConversation :: "conversation \<Rightarrow> bool" where
  "validateConversation c =
     (conversationId c \<noteq> [] \<and> c_status c \<in> set conversationStatuses
      \<and> currentStep c \<in> set conversationSteps \<and> list_all validMessage (messages c))"

definition sessionLength :: int where
  "sessionLength = 30 * 60 * 1000"

text \<open>The schema methods. The \<open>trim\<close> setter of \<open>content\<close> is applied on push.\<close>

definition addMessage ::
  "conversation \<Rightarrow> int \<Rightarrow> string \<Rightarrow> string \<Rightarrow> string \<Rightarrow> string option \<Rightarrow> rat option
     \<Rightarrow> conversation" where
  "addMessage c now sndr text mtype atype conf =
     c\<lparr>messages := messages c @
          [\<lparr>sender = sndr, content = trim text, messageType = mtype, agentType = atype,
            confidence = conf, timestamp = now\<rparr>],
       sessionTimeout := now + sessionLength\<rparr>"

definition updateStatus :: "conversation \<Rightarrow> int \<Rightarrow> string \<Rightarrow> string option \<Rightarrow> conversation" where
  "updateStatus c now status step =
     c\<lparr>c_status := status,
       currentStep := (case step of None \<Rightarrow> currentStep c
                       | Some s \<Rightarrow> if s \<noteq> [] then s else currentStep c),
       sessionTimeout := now + sessionLength\<rparr>"

definition complete :: "conversation \<Rightarrow> int \<Rightarrow> nat option \<Rightarrow> conversation" where
  "complete c now appointmentId =
     c\<lparr>c_status := ''completed'', currentStep := ''completed'', completedAt := Some now,
       c_isActive := False,
       c_appointmentId := (case appointmentId of None \<Rightarrow> c_appointmentId c
                           | Some i \<Rightarrow> Some i)\<rparr>"

definition isExpired :: "conversation \<Rightarrow> int \<Rightarrow> bool" where
  "isExpired c now = (now > sessionTimeout c)"

text \<open>
  \<open>save\<close> of a conversation: the validators run, then a new document is
  inserted unless the unique index on \<open>conversationId\<close> refuses it, and a stored
  document is written over its stored version. The result is the error, if
  any, and the collection afterwards.
\<close>

definition insertConversation ::
  "conversation list \<Rightarrow> conversation \<Rightarrow> string option \<times> conversation list" where
  "insertConversation coll c =
     (if \<not> validateConversation c then (Some ''Conversation validation failed'', coll)
      else if conversationId c \<in> set (map conversationId coll)
      then (Some ''E11000 duplicate key error'', coll)
      else (None, coll @ [c]))"

definition updateConversation ::
  "conversation list \<Rightarrow> conversation \<Rightarrow> string option \<times> conversation list" where
  "updateConversation coll c =
     (if \<not> validateConversation c then (Some ''Conversation validation failed'', coll)
      else (None, map (\<lambda>d. if conversationId d = conversationId c then c else d) coll))"

definition newConversation :: "nat \<Rightarrow> string \<Rightarrow> int \<Rightarrow> conversation" where
  "newConversation userId cid now =
     \<lparr>c_user = userId, conversationId = cid, c_status = ''started'',
      currentStep = ''initial_greeting'', messages = [], sessionTimeout = now + sessionLength,
      c_isActive = True, completedAt = None, c_appointmentId = None, errorLog = []\<rparr>"

text \<open>
  The reply of the agent service, and what the HTTP call to it can end in: the
  call throws, the response is not OK, its body is no JSON, or it is a reply.
\<close>

record agentResponse =
  ar_message :: string
  ar_agentType :: "string option"
  ar_confidence :: "rat option"
  ar_requiresInput :: bool
  ar_suggestions :: "string list"
  newStatus :: "string option"
  newStep :: "string option"
  ar_appointmentId :: "nat option"

datatype agentCall = FetchThrows | NotOk nat | BodyNotJson | Reply agentResponse

definition fallbackResponse :: agentResponse where
  "fallbackResponse =
     \<lparr>ar_message = ''I'' @ [CHR 0x27] @ ''m currently experiencing some technical difficulties. Please try again in a moment, or you can call our helpline for immediate assistance.'',
      ar_agentType = Some ''system'',
      ar_confidence = Some 0,
      ar_requiresInput = False,
      ar_suggestions = [''Try again'', ''Contact support''],
      newStatus = Some ''error'',
      newStep = None,
      ar_appointmentId = None\<rparr>"

definition callAIAgentService :: "agentCall \<Rightarrow> agentResponse" where
  "callAIAgentService call = (case call of Reply data \<Rightarrow> data | _ \<Rightarrow> fallbackResponse)"

text \<open>
  The part of \<open>chatWithAgent\<close> after the conversation is at hand: the user
  message is added, the agent is called, its message is added, the new status
  and the appointment are taken over, and the conversation is saved. For a
  completed conversation the response is built from the populated appointment,
  which throws when the appointment does not exist (\<open>appointmentExists\<close> tells).
  When the save or the building of the response throws, the handler logs the
  error in the conversation and saves again; a second failure escapes to the
  framework. Sending the confirmation mail changes no state and its failure is
  swallowed.
\<close>

definition applyAgentResponse :: "conversation \<Rightarrow> int \<Rightarrow> agentResponse \<Rightarrow> conversation" where
  "applyAgentResponse c now r =
     (let c1 = addMessage c now ''agent'' (ar_message r) ''text'' (ar_agentType r) (ar_confidence r);
          c2 = (case newStatus r of None \<Rightarrow> c1
                | Some s \<Rightarrow> if s \<noteq> [] then updateStatus c1 now s (newStep r) else c1)
      in (case ar_appointmentId r of None \<Rightarrow> c2 | Some i \<Rightarrow> complete c2 now (Some i)))"

definition logAndFail ::
  "conversation list \<Rightarrow> int \<Rightarrow> conversation \<Rightarrow> string \<Rightarrow> outcome \<times> conversation list" where
  "logAndFail coll now c e =
     (let c' = c\<lparr>errorLog := errorLog c @ [(e, currentStep c, now)]\<rparr>
      in (case updateConversation coll c' of
            (None, coll') \<Rightarrow> (ApiError 500 (''AI Agent Error: '' @ e), coll')
          | (Some e', coll') \<Rightarrow> (Thrown e', coll')))"

definition processMessage ::
  "(nat \<Rightarrow> bool) \<Rightarrow> conversation list \<Rightarrow> int \<Rightarrow> conversation \<Rightarrow> string \<Rightarrow> agentCall
     \<Rightarrow> outcome \<times> conversation list" where
  "processMessage appointmentExists coll now conv msg call =
     (let c1 = addMessage conv now ''user'' (trim msg) ''text'' None None;
          agentResp = callAIAgentService call;
          c2 = applyAgentResponse c1 now agentResp
      in (case updateConversation coll c2 of
            (None, coll') \<Rightarrow>
              if c_status c2 = ''completed''
                 \<and> (case c_appointmentId c2 of None \<Rightarrow> False
                      | Some i \<Rightarrow> \<not> appointmentExists i)
              then logAndFail coll' now c2 ''Cannot read properties of null''
              else (Json 200 ''Message processed successfully'', coll')
          | (Some e, _) \<Rightarrow> logAndFail coll now c2 e))"

text \<open>
  \<open>chatWithAgent\<close>. The \<open>conversationId\<close> of the request body is absent or
  empty when a new conversation is wanted; \<open>newConversationId\<close> is the value of
  \<open>uuidv4()\<close>.
\<close>

definition chatExisting ::
  "(nat \<Rightarrow> bool) \<Rightarrow> conversation list \<Rightarrow> int \<Rightarrow> nat \<Rightarrow> string \<Rightarrow> string \<Rightarrow> agentCall
     \<Rightarrow> outcome \<times> conversation list" where
  "chatExisting appointmentExists coll now userId msg cid call =
     (case find (\<lambda>c. conversationId c = cid \<and> c_user c = userId \<and> c_isActive c) coll of
        None \<Rightarrow> (ApiError 404 ''Conversation not found or expired'', coll)
      | Some conv \<Rightarrow>
          if isExpired conv now
          then (case updateConversation coll (conv\<lparr>c_status := ''cancelled'', c_isActive := False\<rparr>) of
                  (Some e, coll') \<Rightarrow> (Thrown e, coll')
                | (None, coll') \<Rightarrow>
                    (ApiError 410 ''Conversation session expired. Please start a new conversation.'',
                     coll'))
          else processMessage appointmentExists coll now conv msg call)"

definition chatNew ::
  "(nat \<Rightarrow> bool) \<Rightarrow> conversation list \<Rightarrow> int \<Rightarrow> nat \<Rightarrow> string \<Rightarrow> string \<Rightarrow> agentCall
     \<Rightarrow> outcome \<times> conversation list" where
  "chatNew appointmentExists coll now userId msg newConversationId call =
     (let conv = newConversation userId newConversationId now
      in (case insertConversation coll conv of
            (Some e, coll') \<Rightarrow> (Thrown e, coll')
          | (None, coll') \<Rightarrow> processMessage appointmentExists coll' now conv msg call))"

definition chatWithAgent ::
  "(nat \<Rightarrow> bool) \<Rightarrow> conversation list \<Rightarrow> int \<Rightarrow> nat \<Rightarrow> string \<Rightarrow> string option \<Rightarrow> string \<Rightarrow> agentCall
     \<Rightarrow> outcome \<times> conversation list" where
  "chatWithAgent appointmentExists coll now userId msg cidOpt newConversationId call =
     (if trim msg = [] then (ApiError 400 ''Message is required'', coll)
      else (case cidOpt of
              None \<Rightarrow> chatNew appointmentExists coll now userId msg newConversationId call
            | Some cid \<Rightarrow>
                if cid \<noteq> [] then chatExisting appointmentExists coll now userId msg cid call
                else chatNew appointmentExists coll now userId msg newConversationId call))"

text \<open>\<open>startNewConversation\<close>: the \<open>updateMany\<close>, then the new conversation and its greeting.\<close>

definition isOpen :: "nat \<Rightarrow> conversation \<Rightarrow> bool" where
  "isOpen userId c =
     (c_user c = userId \<and> c_isActive c \<and> c_status c \<notin> set [''completed'', ''cancelled''])"

definition greeting :: string where
  "greeting = ''Hello! I'' @ [CHR 0x27] @ ''m MediGo, your AI medical assistant. I'' @ [CHR 0x27] @ ''m here to help you find the right doctor and book an appointment. Could you please tell me about your symptoms or health concerns?''"

definition startNewConversation ::
  "conversation list \<Rightarrow> int \<Rightarrow> nat \<Rightarrow> string \<Rightarrow> outcome \<times> conversation list" where
  "startNewConversation coll now userId newConversationId =
     (let coll1 = map (\<lambda>c. if isOpen userId c
                            then c\<lparr>c_isActive := False, c_status := ''cancelled''\<rparr> else c) coll;
          conv = newConversation userId newConversationId now
      in (case insertConversation coll1 conv of
            (Some e, coll') \<Rightarrow> (Thrown e, coll')
          | (None, coll2) \<Rightarrow>
              (let conv' = addMessage conv now ''agent'' greeting ''text''
                             (Some ''symptom_analyzer'') (Some 1)
               in (case updateConversation coll2 conv' of
                     (Some e, coll') \<Rightarrow> (Thrown e, coll')
                   | (None, coll3) \<Rightarrow>
                       (Json 201 ''New conversation started successfully'', coll3)))))"

definition endConversation ::
  "conversation list \<Rightarrow> int \<Rightarrow> nat \<Rightarrow> string \<Rightarrow> outcome \<times> conversation list" where
  "endConversation coll now userId cid =
     (case find (\<lambda>c. conversationId c = cid \<and> c_user c = userId \<and> c_isActive c) coll of
        None \<Rightarrow> (ApiError 404 ''Active conversation not found'', coll)
      | Some conv \<Rightarrow>
          (let c1 = addMessage (conv\<lparr>c_status := ''cancelled'', c_isActive := False\<rparr>) now
                      ''system'' ''Conversation ended by user'' ''text'' None None
           in (case updateConversation coll c1 of
                 (Some e, coll') \<Rightarrow> (Thrown e, coll')
               | (None, coll') \<Rightarrow> (Json 200 ''Conversation ended successfully'', coll'))))"

text \<open>
  The linear order of statuses that the specification speaks of, and what it
  means for a change of status to go forward along it.
\<close>

definition linearOrder :: "string list" where
  "linearOrder =
     [''started'', ''gathering_symptoms'', ''analyzing_symptoms'', ''recommending_doctor'',
      ''confirming_doctor'', ''checking_availability'', ''selecting_slot'',
      ''confirming_appointment'', ''completed'']"

fun position :: "string \<Rightarrow> string list \<Rightarrow> nat option" where
  "position s [] = None"
| "position s (x # xs) = (if s = x then Some 0 else map_option Suc (position s xs))"

definition movesForward :: "string \<Rightarrow> string \<Rightarrow> bool" where
  "movesForward old new =
     (case (position old linearOrder, position new linearOrder) of
        (Some i, Some j) \<Rightarrow> i \<le> j
      | _ \<Rightarrow> False)"

definition statusesInEnum :: "conversation list \<Rightarrow> bool" where
  "statusesInEnum coll = list_all (\<lambda>c. c_status c \<in> set conversationStatuses) coll"

definition statusOf :: "conversation list \<Rightarrow> string \<Rightarrow> string option" where
  "statusOf coll cid = map_option c_status (find (\<lambda>c. conversationId c = cid) coll)"

text \<open>Sample conversations of user 1 and of user 2, and a reply that rewinds the status.\<close>

definition sampleConv :: "nat \<Rightarrow> string \<Rightarrow> string \<Rightarrow> bool \<Rightarrow> conversation" where
  "sampleConv uid cid st act =
     \<lparr>c_user = uid, conversationId = cid, c_status = st, currentStep = ''slot_selection'',
      messages = [], sessionTimeout = 1700001800000, c_isActive = act, completedAt = None,
      c_appointmentId = None, errorLog = []\<rparr>"

definition sampleConvs :: "conversation list" where
  "sampleConvs =
     [sampleConv 1 ''c-1'' ''selecting_slot'' True,
      sampleConv 1 ''c-2'' ''completed'' False,
      sampleConv 2 ''c-3'' ''gathering_symptoms'' True]"

definition noAppointments :: "nat \<Rightarrow> bool" where
  "noAppointments i = False"

definition rewindReply :: agentResponse where
  "rewindReply =
     \<lparr>ar_message = ''Let us start over.'', ar_agentType = Some ''symptom_analyzer'',
      ar_confidence = Some 1, ar_requiresInput = True, ar_suggestions = [],
      newStatus = Some ''started'', newStep = Some ''initial_greeting'',
      ar_appointmentId = None\<rparr>"

text \<open>
  The conversation that a message leaves behind when the agent service is down:
  the user message, the fallback message of the agent, and the status \<open>error\<close>.
\<close>

definition afterFallback :: "conversation \<Rightarrow> int \<Rightarrow> string \<Rightarrow> conversation" where
  "afterFallback conv now msg =
     conv\<lparr>messages := messages conv @
            [\<lparr>sender = ''user'', content = trim msg, messageType = ''text'', agentType = None,
              confidence = None, timestamp = now\<rparr>,
             \<lparr>sender = ''agent'', content = ar_message fallbackResponse, messageType = ''text'',
              agentType = Some ''system'', confidence = Some 0, timestamp = now\<rparr>],
          c_status := ''error'',
          sessionTimeout := now + sessionLength\<rparr>"

section \<open>Symptom matching: the result of findBySymptoms\<close>










section \<open>Urgency level: the maximum is taken over strings\<close>

lemma maxString_Max:
  "maxString xs = (if xs = [] then None else Some (Max (set xs)))"
proof (induction xs)
  case Nil
  show ?case by simp
next
  case (Cons x xs)
  show ?case
  proof (cases "xs = []")
    case True
    then show ?thesis by simp
  next
    case False
    then have "Max (set (x # xs)) = max x (Max (set xs))"
      by simp
    with Cons False show ?thesis by simp
  qed
qed

lemma set_unwindUrgency:
  "set (unwindUrgency coll) = {(d, k). d \<in> set coll \<and> k \<in> set (urgencyKeywords d)}"
  by (auto simp: unwindUrgency_def)

lemma set_matchedLevels:
  "set (matchedLevels coll s) =
     {urgencyLevel k | d k. d \<in> set coll \<and> isActive d \<and> k \<in> set (urgencyKeywords d)
                            \<and> keyword k \<in> set (split_ws (toLowerCase s))}"
  unfolding matchedLevels_def Let_def set_map set_filter set_unwindUrgency
  by force

lemma level_order:
  "(''high'' :: string) < ''low''" "(''low'' :: string) < ''medium''"
  "(''medium'' :: string) < ''urgent''"
  by simp_all

lemma Max_high_medium:
  assumes "''high'' \<in> set ls" "''medium'' \<in> set ls"
    and "set ls \<subseteq> {''low'', ''medium'', ''high'', ''urgent''}"
  shows "Max (set ls) = (if ''urgent'' \<in> set ls then ''urgent'' else ''medium'')"
proof (cases "''urgent'' \<in> set ls")
  case True
  have "\<forall>y \<in> set ls. y \<le> ''urgent''"
    using assms(3) by auto
  then have "Max (set ls) = ''urgent''"
    using True by (intro Max_eqI) auto
  with True show ?thesis by simp
next
  case False
  have "\<forall>y \<in> set ls. y \<le> ''medium''"
    using assms(3) False by auto
  then have "Max (set ls) = ''medium''"
    using assms(2) by (intro Max_eqI) auto
  with False show ?thesis by simp
qed

text \<open>
  C9. \<open>getUrgencyLevel\<close> reports the greatest of the matched urgency levels in
  the order of strings, and nothing when no keyword matches. In that order
  \<open>high\<close> is below \<open>medium\<close>: when a \<open>high\<close> and a \<open>medium\<close> keyword both match,
  the level reported is \<open>medium\<close> and never \<open>high\<close> (it is \<open>urgent\<close> only when an
  \<open>urgent\<close> keyword matches as well).
\<close>

theorem getUrgencyLevel_lexicographic_max:
  "set (matchedLevels coll s) =
     {urgencyLevel k | d k. d \<in> set coll \<and> isActive d \<and> k \<in> set (urgencyKeywords d)
                            \<and> keyword k \<in> set (split_ws (toLowerCase s))}
   \<and> (matchedLevels coll s = [] \<longrightarrow> getUrgencyLevel coll s = [])
   \<and> (matchedLevels coll s \<noteq> [] \<longrightarrow>
        getUrgencyLevel coll s = [Max (set (matchedLevels coll s))])
   \<and> (''high'' :: string) < ''medium''
   \<and> (''high'' \<in> set (matchedLevels coll s) \<and> ''medium'' \<in> set (matchedLevels coll s)
        \<and> set (matchedLevels coll s) \<subseteq> {''low'', ''medium'', ''high'', ''urgent''} \<longrightarrow>
        getUrgencyLevel coll s
          = [if ''urgent'' \<in> set (matchedLevels coll s) then ''urgent'' else ''medium''])"
proof -
  have a: "matchedLevels coll s = [] \<longrightarrow> getUrgencyLevel coll s = []"
    by (simp add: getUrgencyLevel_def)
  have b: "matchedLevels coll s \<noteq> [] \<longrightarrow>
        getUrgencyLevel coll s = [Max (set (matchedLevels coll s))]"
    by (simp add: getUrgencyLevel_def maxString_Max)
  have c: "(''high'' :: string) < ''medium''"
    by simp
  have d: "''high'' \<in> set (matchedLevels coll s) \<and> ''medium'' \<in> set (matchedLevels coll s)
        \<and> set (matchedLevels coll s) \<subseteq> {''low'', ''medium'', ''high'', ''urgent''} \<longrightarrow>
        getUrgencyLevel coll s
          = [if ''urgent'' \<in> set (matchedLevels coll s) then ''urgent'' else ''medium'']"
  proof (intro impI, elim conjE)
    assume h: "''high'' \<in> set (matchedLevels coll s)" "''medium'' \<in> set (matchedLevels coll s)"
      "set (matchedLevels coll s) \<subseteq> {''low'', ''medium'', ''high'', ''urgent''}"
    then have "matchedLevels coll s \<noteq> []" by auto
    with b Max_high_medium [OF h] show "getUrgencyLevel coll s
          = [if ''urgent'' \<in> set (matchedLevels coll s) then ''urgent'' else ''medium'']"
      by simp
  qed
  show ?thesis
    using set_matchedLevels [of coll s] a b c d by blast
qed

theorem getUrgencyLevel_lexicographic_max_witness:
  "matchedLevels sampleColl ''Chest pain'' = [''high'', ''low'', ''medium'', ''medium'', ''low'']
   \<and> getUrgencyLevel sampleColl ''Chest pain'' = [''medium'']
   \<and> matchedLevels sampleColl ''rash'' \<noteq> []
   \<and> getUrgencyLevel sampleColl ''rash'' = [Max (set (matchedLevels sampleColl ''rash''))]
   \<and> matchedLevels sampleColl ''fever'' = [] \<and> getUrgencyLevel sampleColl ''fever'' = []"
proof -
  have m: "matchedLevels sampleColl ''Chest pain'' = [''high'', ''low'', ''medium'', ''medium'', ''low'']"
    by code_simp
  have h: "''high'' \<in> set (matchedLevels sampleColl ''Chest pain'')
      \<and> ''medium'' \<in> set (matchedLevels sampleColl ''Chest pain'')
      \<and> set (matchedLevels sampleColl ''Chest pain'') \<subseteq> {''low'', ''medium'', ''high'', ''urgent''}"
    unfolding m by simp
  have nu: "''urgent'' \<notin> set (matchedLevels sampleColl ''Chest pain'')"
    unfolding m by simp
  have g: "getUrgencyLevel sampleColl ''Chest pain'' = [''medium'']"
    using getUrgencyLevel_lexicographic_max [of sampleColl "''Chest pain''"] h nu by presburger
  have r: "matchedLevels sampleColl ''rash'' \<noteq> []"
    by code_simp
  have f: "matchedLevels sampleColl ''fever'' = []"
    by code_simp
  show ?thesis
    using getUrgencyLevel_lexicographic_max [of sampleColl "''rash''"]
      getUrgencyLevel_lexicographic_max [of sampleColl "''fever''"] m g r f by blast
qed

section \<open>Appointments: the save hook and double booking\<close>

lemma set_storeAppointment:
  "set (storeAppointment coll a) \<subseteq> insert a {b \<in> set coll. a_id b \<noteq> a_id a}"
  by (auto simp: storeAppointment_def isNew_def findById_def find_None_iff)

lemma ids_storeAppointment:
  "distinctIds coll \<Longrightarrow> distinctIds (storeAppointment coll a)"
proof (cases "isNew coll a")
  case True
  assume "distinctIds coll"
  with True show ?thesis
    by (auto simp: storeAppointment_def distinctIds_def isNew_def findById_def find_None_iff)
next
  case False
  assume d: "distinctIds coll"
  have "map a_id (map (\<lambda>b. if a_id b = a_id a then a else b) coll) = map a_id coll"
    by (induction coll) auto
  with False d show ?thesis
    unfolding storeAppointment_def distinctIds_def by presburger
qed

lemma overlaps_sym: "overlaps a b = overlaps b a"
  by (auto simp: overlaps_def)

lemma checkConflict_iff:
  "checkConflict coll d dt st en (Some i) =
     (\<exists>b \<in> set coll. a_id b \<noteq> i \<and> doctor b = d \<and> appointmentDate b = dt
         \<and> a_status b \<in> set bookedStatuses \<and> startTime b < en \<and> endTime b > st)"
  by (auto simp: checkConflict_def filter_empty_conv)

lemma findById_Some: "findById coll i = Some b \<Longrightarrow> b \<in> set coll \<and> a_id b = i"
  by (auto simp: findById_def find_Some_iff)

lemma unchanged_slot:
  assumes "\<not> hookApplies coll a"
  shows "\<exists>b. findById coll (a_id a) = Some b \<and> appointmentDate b = appointmentDate a
            \<and> startTime b = startTime a \<and> endTime b = endTime a"
  using assms
  by (auto simp: hookApplies_def isNew_def isModifiedDate_def isModifiedTimeSlot_def
           split: option.splits)

lemma saveAppointment_accepted:
  "saveAppointment coll now a = (None, coll') \<Longrightarrow>
     validateAppointment a \<and> preSave coll now a = None \<and> coll' = storeAppointment coll a"
  by (auto simp: saveAppointment_def split: if_splits option.splits)

lemma new_slot_free:
  assumes ok: "preSave coll now a = None" and hook: "hookApplies coll a"
    and y: "y \<in> set coll" "a_id y \<noteq> a_id a" "doctor y = doctor a"
      "appointmentDate y = appointmentDate a" "isBooked y"
  shows "\<not> overlaps a y"
proof -
  from ok hook have "\<not> checkConflict coll (doctor a) (appointmentDate a) (startTime a) (endTime a)
                        (Some (a_id a))"
    by (auto simp: preSave_def split: if_splits)
  with y have "\<not> (startTime y < endTime a \<and> endTime y > startTime a)"
    unfolding checkConflict_iff isBooked_def by blast
  then show ?thesis
    by (auto simp: overlaps_def)
qed

lemma kept_slot_free:
  assumes inv: "noDoubleBooking coll" and nohook: "\<not> hookApplies coll a"
    and old: "findById coll (a_id a) = Some b" "isBooked b" "doctor b = doctor a"
    and y: "y \<in> set coll" "a_id y \<noteq> a_id a" "doctor y = doctor a"
      "appointmentDate y = appointmentDate a" "isBooked y"
  shows "\<not> overlaps a y"
proof -
  from unchanged_slot [OF nohook] old(1)
  have same: "appointmentDate b = appointmentDate a" "startTime b = startTime a"
    "endTime b = endTime a"
    by auto
  from findById_Some [OF old(1)] have b: "b \<in> set coll" "a_id b = a_id a"
    by auto
  from inv b y old(2,3) same(1) have "\<not> overlaps b y"
    unfolding noDoubleBooking_def by metis
  with same show ?thesis
    by (simp add: overlaps_def)
qed

lemma noDoubleBooking_store:
  assumes inv: "noDoubleBooking coll"
    and free: "\<And>y. y \<in> set coll \<Longrightarrow> a_id y \<noteq> a_id a \<Longrightarrow> doctor y = doctor a \<Longrightarrow>
                 appointmentDate y = appointmentDate a \<Longrightarrow> isBooked a \<Longrightarrow> isBooked y \<Longrightarrow>
                 \<not> overlaps a y"
  shows "noDoubleBooking (storeAppointment coll a)"
  unfolding noDoubleBooking_def
proof (intro ballI impI, elim conjE)
  fix x y
  assume x: "x \<in> set (storeAppointment coll a)" and y: "y \<in> set (storeAppointment coll a)"
    and h: "a_id x \<noteq> a_id y" "doctor x = doctor y" "appointmentDate x = appointmentDate y"
      "isBooked x" "isBooked y"
  from x set_storeAppointment have x': "x = a \<or> (x \<in> set coll \<and> a_id x \<noteq> a_id a)" by blast
  from y set_storeAppointment have y': "y = a \<or> (y \<in> set coll \<and> a_id y \<noteq> a_id a)" by blast
  consider (xa) "x = a" "y \<in> set coll" "a_id y \<noteq> a_id a"
    | (ya) "y = a" "x \<in> set coll" "a_id x \<noteq> a_id a"
    | (old) "x \<in> set coll" "y \<in> set coll"
    using x' y' h(1) by blast
  then show "\<not> overlaps x y"
  proof cases
    case xa
    with free [of y] h show ?thesis by simp
  next
    case ya
    with free [of x] h have "\<not> overlaps a x" by simp
    with ya show ?thesis by (simp add: overlaps_sym)
  next
    case old
    with inv h show ?thesis unfolding noDoubleBooking_def by blast
  qed
qed

text \<open>
  C4 (amended). A save of an appointment that is new, or whose date or time slot
  differs from the stored one, is rejected and leaves the collection as it was
  when the date is before the current time, and when another appointment of the
  same doctor on exactly that date, in a booked status, overlaps it (start below
  the new end and end above the new start, as strings). An accepted save keeps
  the booked appointments of a doctor on one date pairwise free of overlap when
  the hook applied to it, or the saved appointment is not in a booked status, or
  its stored version was already booked with the same doctor.
\<close>

theorem saveAppointment_conflict_rules:
  "(hookApplies coll a \<and> appointmentDate a < now \<longrightarrow>
      (\<exists>e. saveAppointment coll now a = (Some e, coll)))
   \<and> (hookApplies coll a
       \<and> (\<exists>b \<in> set coll. a_id b \<noteq> a_id a \<and> doctor b = doctor a
             \<and> appointmentDate b = appointmentDate a \<and> a_status b \<in> set bookedStatuses
             \<and> startTime b < endTime a \<and> endTime b > startTime a) \<longrightarrow>
      (\<exists>e. saveAppointment coll now a = (Some e, coll)))
   \<and> (distinctIds coll \<and> noDoubleBooking coll \<and> saveAppointment coll now a = (None, coll')
       \<and> (hookApplies coll a \<or> \<not> isBooked a
           \<or> (\<exists>b. findById coll (a_id a) = Some b \<and> isBooked b \<and> doctor b = doctor a)) \<longrightarrow>
      distinctIds coll' \<and> noDoubleBooking coll')"
proof -
  have past: "hookApplies coll a \<and> appointmentDate a < now \<longrightarrow>
      (\<exists>e. saveAppointment coll now a = (Some e, coll))"
    by (simp add: saveAppointment_def preSave_def)
  have booked: "hookApplies coll a
       \<and> (\<exists>b \<in> set coll. a_id b \<noteq> a_id a \<and> doctor b = doctor a
             \<and> appointmentDate b = appointmentDate a \<and> a_status b \<in> set bookedStatuses
             \<and> startTime b < endTime a \<and> endTime b > startTime a) \<longrightarrow>
      (\<exists>e. saveAppointment coll now a = (Some e, coll))"
  proof (intro impI, elim conjE)
    assume "hookApplies coll a"
      and "\<exists>b \<in> set coll. a_id b \<noteq> a_id a \<and> doctor b = doctor a
             \<and> appointmentDate b = appointmentDate a \<and> a_status b \<in> set bookedStatuses
             \<and> startTime b < endTime a \<and> endTime b > startTime a"
    then have "preSave coll now a \<noteq> None"
      unfolding preSave_def checkConflict_iff by auto
    then show "\<exists>e. saveAppointment coll now a = (Some e, coll)"
      by (auto simp: saveAppointment_def)
  qed
  have inv: "distinctIds coll \<and> noDoubleBooking coll \<and> saveAppointment coll now a = (None, coll')
       \<and> (hookApplies coll a \<or> \<not> isBooked a
           \<or> (\<exists>b. findById coll (a_id a) = Some b \<and> isBooked b \<and> doctor b = doctor a)) \<longrightarrow>
      distinctIds coll' \<and> noDoubleBooking coll'"
  proof (intro impI, elim conjE)
    assume d: "distinctIds coll" and n: "noDoubleBooking coll"
      and s: "saveAppointment coll now a = (None, coll')"
      and c: "hookApplies coll a \<or> \<not> isBooked a
           \<or> (\<exists>b. findById coll (a_id a) = Some b \<and> isBooked b \<and> doctor b = doctor a)"
    from saveAppointment_accepted [OF s]
    have ok: "preSave coll now a = None" and st: "coll' = storeAppointment coll a"
      by auto
    have "noDoubleBooking (storeAppointment coll a)"
    proof (rule noDoubleBooking_store [OF n])
      fix y
      assume y: "y \<in> set coll" "a_id y \<noteq> a_id a" "doctor y = doctor a"
        "appointmentDate y = appointmentDate a" "isBooked a" "isBooked y"
      show "\<not> overlaps a y"
      proof (cases "hookApplies coll a")
        case True
        from new_slot_free [OF ok True y(1-4) y(6)] show ?thesis .
      next
        case False
        with c y(5) obtain b where "findById coll (a_id a) = Some b" "isBooked b"
          "doctor b = doctor a"
          by blast
        from kept_slot_free [OF n False this y(1-4) y(6)] show ?thesis .
      qed
    qed
    with d st show "distinctIds coll' \<and> noDoubleBooking coll'"
      by (simp add: ids_storeAppointment)
  qed
  show ?thesis
    using past booked inv by blast
qed






text \<open>
  The claim C4 as stated fails: after appointment 1 is cancelled and appointment 2
  is booked into its slot, saving appointment 1 with only the status set back to
  \<open>scheduled\<close> skips the hook, is accepted, and leaves two booked appointments of
  the doctor in the same slot.
\<close>

theorem status_only_save_double_books:
  "fst (saveAppointment [] 1700000000000 (sampleAppt 1 ''10:00'' ''11:00'' ''scheduled'')) = None
   \<and> fst (cancelAppointment afterBooking1 1700000000000 1 1 [])
        = Json 200 ''Appointment cancelled successfully''
   \<and> fst (saveAppointment afterCancel1 1700000000000 (sampleAppt 2 ''10:00'' ''11:00'' ''scheduled'')) = None
   \<and> distinctIds afterBooking2 \<and> noDoubleBooking afterBooking2
   \<and> \<not> hookApplies afterBooking2 rebooked1
   \<and> fst (saveAppointment afterBooking2 1700000000000 rebooked1) = None
   \<and> \<not> noDoubleBooking (snd (saveAppointment afterBooking2 1700000000000 rebooked1))"
  by code_simp

text \<open>The amended C4 at the sample collection: both rejections and an accepted booking.\<close>

theorem saveAppointment_conflict_rules_witness:
  "hookApplies sampleAppts (sampleAppt 3 ''11:00'' ''11:30'' ''scheduled'')
   \<and> appointmentDate (sampleAppt 3 ''11:00'' ''11:30'' ''scheduled'') < 1900000000000
   \<and> saveAppointment sampleAppts 1900000000000 (sampleAppt 3 ''11:00'' ''11:30'' ''scheduled'')
        = (Some ''Appointment cannot be scheduled in the past'', sampleAppts)
   \<and> hookApplies sampleAppts (sampleAppt 3 ''10:30'' ''11:30'' ''scheduled'')
   \<and> saveAppointment sampleAppts 1700000000000 (sampleAppt 3 ''10:30'' ''11:30'' ''scheduled'')
        = (Some ''Time slot is already booked'', sampleAppts)
   \<and> distinctIds sampleAppts \<and> noDoubleBooking sampleAppts
   \<and> saveAppointment sampleAppts 1700000000000 (sampleAppt 3 ''11:00'' ''11:30'' ''scheduled'')
        = (None, sampleAppts @ [sampleAppt 3 ''11:00'' ''11:30'' ''scheduled''])
   \<and> distinctIds (sampleAppts @ [sampleAppt 3 ''11:00'' ''11:30'' ''scheduled''])
   \<and> noDoubleBooking (sampleAppts @ [sampleAppt 3 ''11:00'' ''11:30'' ''scheduled''])"
proof -
  have h1: "hookApplies sampleAppts (sampleAppt 3 ''11:00'' ''11:30'' ''scheduled'')"
    by code_simp
  have h2: "appointmentDate (sampleAppt 3 ''11:00'' ''11:30'' ''scheduled'') < 1900000000000"
    by code_simp
  have h3: "hookApplies sampleAppts (sampleAppt 3 ''10:30'' ''11:30'' ''scheduled'')"
    by code_simp
  have h4: "\<exists>b \<in> set sampleAppts. a_id b \<noteq> a_id (sampleAppt 3 ''10:30'' ''11:30'' ''scheduled'')
      \<and> doctor b = doctor (sampleAppt 3 ''10:30'' ''11:30'' ''scheduled'')
      \<and> appointmentDate b = appointmentDate (sampleAppt 3 ''10:30'' ''11:30'' ''scheduled'')
      \<and> a_status b \<in> set bookedStatuses
      \<and> startTime b < endTime (sampleAppt 3 ''10:30'' ''11:30'' ''scheduled'')
      \<and> endTime b > startTime (sampleAppt 3 ''10:30'' ''11:30'' ''scheduled'')"
    by code_simp
  have h5: "distinctIds sampleAppts \<and> noDoubleBooking sampleAppts"
    by code_simp
  have h6: "saveAppointment sampleAppts 1700000000000 (sampleAppt 3 ''11:00'' ''11:30'' ''scheduled'')
        = (None, sampleAppts @ [sampleAppt 3 ''11:00'' ''11:30'' ''scheduled''])"
    by code_simp
  have r1: "\<exists>e. saveAppointment sampleAppts 1900000000000 (sampleAppt 3 ''11:00'' ''11:30'' ''scheduled'')
        = (Some e, sampleAppts)"
    using saveAppointment_conflict_rules
      [of sampleAppts "sampleAppt 3 ''11:00'' ''11:30'' ''scheduled''" 1900000000000] h1 h2
    by blast
  have e1: "fst (saveAppointment sampleAppts 1900000000000 (sampleAppt 3 ''11:00'' ''11:30'' ''scheduled''))
        = Some ''Appointment cannot be scheduled in the past''"
    by code_simp
  have r2: "\<exists>e. saveAppointment sampleAppts 1700000000000 (sampleAppt 3 ''10:30'' ''11:30'' ''scheduled'')
        = (Some e, sampleAppts)"
    using saveAppointment_conflict_rules
      [of sampleAppts "sampleAppt 3 ''10:30'' ''11:30'' ''scheduled''" 1700000000000] h3 h4
    by blast
  have e2: "fst (saveAppointment sampleAppts 1700000000000 (sampleAppt 3 ''10:30'' ''11:30'' ''scheduled''))
        = Some ''Time slot is already booked''"
    by code_simp
  have r3: "distinctIds (sampleAppts @ [sampleAppt 3 ''11:00'' ''11:30'' ''scheduled''])
      \<and> noDoubleBooking (sampleAppts @ [sampleAppt 3 ''11:00'' ''11:30'' ''scheduled''])"
    using saveAppointment_conflict_rules
      [of sampleAppts "sampleAppt 3 ''11:00'' ''11:30'' ''scheduled''" 1700000000000
          "sampleAppts @ [sampleAppt 3 ''11:00'' ''11:30'' ''scheduled'']"] h1 h5 h6
    by blast
  from r1 e1 have s1: "saveAppointment sampleAppts 1900000000000 (sampleAppt 3 ''11:00'' ''11:30'' ''scheduled'')
        = (Some ''Appointment cannot be scheduled in the past'', sampleAppts)"
    by auto
  from r2 e2 have s2: "saveAppointment sampleAppts 1700000000000 (sampleAppt 3 ''10:30'' ''11:30'' ''scheduled'')
        = (Some ''Time slot is already booked'', sampleAppts)"
    by auto
  show ?thesis
    using h1 h2 h3 h5 h6 r3 s1 s2 by blast
qed



section \<open>The email OTP workflow\<close>













section \<open>Authentication of the protected routes\<close>

lemma authenticate_no_token:
  "requestToken req = None \<or> requestToken req = Some [] \<Longrightarrow>
     authenticate verify users req = Inl (ApiError 401 ''Access token is required'')"
  by (auto simp: authenticate_def)

lemma requestToken_absent:
  "cookieToken req = None \<Longrightarrow> authorization req = None \<Longrightarrow> requestToken req = None"
  by (simp add: requestToken_def)

lemma authenticate_bad_token:
  "requestToken req = Some t \<Longrightarrow> t \<noteq> [] \<Longrightarrow>
   verify t \<in> {JsonWebTokenError, TokenExpiredError, NotBeforeError} \<Longrightarrow>
     \<exists>m. authenticate verify users req = Inl (ApiError 401 m)"
  by (auto simp: authenticate_def)

lemma authenticate_no_user:
  "requestToken req = Some t \<Longrightarrow> t \<noteq> [] \<Longrightarrow> verify t = Decoded i \<Longrightarrow>
   Option.bind i (findUserById users) = None \<Longrightarrow>
     authenticate verify users req = Inl (ApiError 401 ''Invalid access token'')"
  by (simp add: authenticate_def)

lemma authenticate_inactive:
  "requestToken req = Some t \<Longrightarrow> t \<noteq> [] \<Longrightarrow> verify t = Decoded i \<Longrightarrow>
   Option.bind i (findUserById users) = Some u \<Longrightarrow> \<not> u_isActive u \<Longrightarrow>
     authenticate verify users req = Inl (ApiError 403 ''Account has been deactivated'')"
  by (simp add: authenticate_def)

lemma authenticate_next_iff:
  "(authenticate verify users req = Inr u) =
     (\<exists>t i. requestToken req = Some t \<and> t \<noteq> [] \<and> verify t = Decoded (Some i)
            \<and> findUserById users i = Some u \<and> u_isActive u)"
proof (cases "requestToken req")
  case None
  then show ?thesis by (simp add: authenticate_def)
next
  case (Some t)
  show ?thesis
  proof (cases "t = []")
    case True
    with Some show ?thesis by (simp add: authenticate_def)
  next
    case False
    show ?thesis
    proof (cases "verify t")
      case (Decoded i)
      show ?thesis
      proof (cases i)
        case None
        with Some False Decoded show ?thesis by (simp add: authenticate_def)
      next
        case (Some j)
        with \<open>requestToken req = Some t\<close> False Decoded show ?thesis
          by (cases "findUserById users j") (auto simp: authenticate_def)
      qed
    qed (use Some False in \<open>simp_all add: authenticate_def\<close>)
  qed
qed

lemma authenticate_rejects:
  "(\<forall>u. authenticate verify users req \<noteq> Inr u) \<Longrightarrow>
     \<exists>c m. (c = 401 \<or> c = 403) \<and> authenticate verify users req = Inl (ApiError c m)"
  unfolding authenticate_def
  by (auto split: option.splits jwtResult.splits if_splits)

text \<open>
  C6. \<open>authenticate\<close> rejects with 401 a request without a token in the cookie
  or the Authorization header, a token that fails verification (malformed,
  expired or not yet valid), and a token whose id matches no user; it rejects
  with 403 when the matched user is inactive. It passes the request on, with the
  user attached, exactly when a verified token resolves to an existing active
  user; a route behind it runs its handler in that case only, and answers 401 or
  403 otherwise.
\<close>

theorem authenticate_guards_routes:
  "(cookieToken req = None \<and> authorization req = None \<longrightarrow>
      authenticate verify users req = Inl (ApiError 401 ''Access token is required''))
   \<and> (requestToken req = None \<or> requestToken req = Some [] \<longrightarrow>
      authenticate verify users req = Inl (ApiError 401 ''Access token is required''))
   \<and> (requestToken req = Some t \<and> t \<noteq> []
        \<and> verify t \<in> {JsonWebTokenError, TokenExpiredError, NotBeforeError} \<longrightarrow>
      (\<exists>m. authenticate verify users req = Inl (ApiError 401 m)))
   \<and> (requestToken req = Some t \<and> t \<noteq> [] \<and> verify t = Decoded i
        \<and> Option.bind i (findUserById users) = None \<longrightarrow>
      authenticate verify users req = Inl (ApiError 401 ''Invalid access token''))
   \<and> (requestToken req = Some t \<and> t \<noteq> [] \<and> verify t = Decoded i
        \<and> Option.bind i (findUserById users) = Some v \<and> \<not> u_isActive v \<longrightarrow>
      authenticate verify users req = Inl (ApiError 403 ''Account has been deactivated''))
   \<and> ((authenticate verify users req = Inr u) =
        (\<exists>t i. requestToken req = Some t \<and> t \<noteq> [] \<and> verify t = Decoded (Some i)
            \<and> findUserById users i = Some u \<and> u_isActive u))
   \<and> (authenticate verify users req = Inr u \<longrightarrow>
        protectedRoute verify users handler req = handler u)
   \<and> ((\<forall>w. authenticate verify users req \<noteq> Inr w) \<longrightarrow>
        (\<exists>c m. (c = 401 \<or> c = 403) \<and> protectedRoute verify users handler req = ApiError c m))"
proof -
  have run: "authenticate verify users req = Inr u \<longrightarrow>
        protectedRoute verify users handler req = handler u"
    by (simp add: protectedRoute_def)
  have rej: "(\<forall>w. authenticate verify users req \<noteq> Inr w) \<longrightarrow>
        (\<exists>c m. (c = 401 \<or> c = 403) \<and> protectedRoute verify users handler req = ApiError c m)"
  proof
    assume "\<forall>w. authenticate verify users req \<noteq> Inr w"
    from authenticate_rejects [OF this] obtain c m
      where "c = 401 \<or> c = 403" "authenticate verify users req = Inl (ApiError c m)"
      by blast
    then show "\<exists>c m. (c = 401 \<or> c = 403) \<and> protectedRoute verify users handler req = ApiError c m"
      by (auto simp: protectedRoute_def)
  qed
  show ?thesis
    using requestToken_absent [of req] authenticate_no_token [of req verify users]
      authenticate_bad_token [of req t verify users]
      authenticate_no_user [of req t verify i users]
      authenticate_inactive [of req t verify i users v]
      authenticate_next_iff [of verify users req u] run rej
    by blast
qed

text \<open>The middleware at the sample users: each rejection and an accepted request.\<close>

theorem authenticate_guards_routes_witness:
  "authenticate sampleVerify sampleUsers \<lparr>cookieToken = None, authorization = None\<rparr>
     = Inl (ApiError 401 ''Access token is required'')
   \<and> requestToken \<lparr>cookieToken = Some [], authorization = Some ''Bearer old''\<rparr> = Some ''old''
   \<and> sampleVerify ''old'' = TokenExpiredError
   \<and> authenticate sampleVerify sampleUsers \<lparr>cookieToken = Some [], authorization = Some ''Bearer old''\<rparr>
        = Inl (ApiError 401 ''Access token has expired'')
   \<and> authenticate sampleVerify sampleUsers \<lparr>cookieToken = Some ''tok9'', authorization = None\<rparr>
        = Inl (ApiError 401 ''Invalid access token'')
   \<and> authenticate sampleVerify sampleUsers \<lparr>cookieToken = Some ''tok2'', authorization = None\<rparr>
        = Inl (ApiError 403 ''Account has been deactivated'')
   \<and> authenticate sampleVerify sampleUsers \<lparr>cookieToken = None, authorization = Some ''Bearer tok1''\<rparr>
        = Inr (sampleUser 1 True)
   \<and> protectedRoute sampleVerify sampleUsers (\<lambda>u. Json 200 (firstName u))
        \<lparr>cookieToken = None, authorization = Some ''Bearer tok1''\<rparr> = Json 200 ''Asha''
   \<and> protectedRoute sampleVerify sampleUsers (\<lambda>u. Json 200 (firstName u))
        \<lparr>cookieToken = Some ''tok2'', authorization = None\<rparr>
        = ApiError 403 ''Account has been deactivated''"
proof -
  let ?none = "\<lparr>cookieToken = None, authorization = None\<rparr>"
  let ?old = "\<lparr>cookieToken = Some [], authorization = Some ''Bearer old''\<rparr>"
  let ?r9 = "\<lparr>cookieToken = Some ''tok9'', authorization = None\<rparr>"
  let ?r2 = "\<lparr>cookieToken = Some ''tok2'', authorization = None\<rparr>"
  let ?r1 = "\<lparr>cookieToken = None, authorization = Some ''Bearer tok1''\<rparr>"
  let ?h = "\<lambda>u. Json 200 (firstName u)"
  have a: "authenticate sampleVerify sampleUsers ?none = Inl (ApiError 401 ''Access token is required'')"
    using authenticate_guards_routes [of ?none sampleVerify sampleUsers "[]" None "sampleUser 1 True"
        "sampleUser 1 True" ?h]
    by simp
  have told: "requestToken ?old = Some ''old''" by code_simp
  have vold: "sampleVerify ''old'' = TokenExpiredError" by code_simp
  have bex: "\<exists>m. authenticate sampleVerify sampleUsers ?old = Inl (ApiError 401 m)"
    using authenticate_guards_routes [of ?old sampleVerify sampleUsers "''old''" None
        "sampleUser 1 True" "sampleUser 1 True" ?h] told vold
    by simp
  have b: "authenticate sampleVerify sampleUsers ?old
        = Inl (ApiError 401 ''Access token has expired'')"
    by code_simp
  have t9: "requestToken ?r9 = Some ''tok9'' \<and> ''tok9'' \<noteq> [] \<and> sampleVerify ''tok9'' = Decoded (Some 9)
      \<and> Option.bind (Some 9) (findUserById sampleUsers) = None"
    by code_simp
  have c: "authenticate sampleVerify sampleUsers ?r9 = Inl (ApiError 401 ''Invalid access token'')"
    using authenticate_guards_routes [of ?r9 sampleVerify sampleUsers "''tok9''" "Some 9"
        "sampleUser 1 True" "sampleUser 1 True" ?h] t9
    by blast
  have t2: "requestToken ?r2 = Some ''tok2'' \<and> ''tok2'' \<noteq> [] \<and> sampleVerify ''tok2'' = Decoded (Some 2)
      \<and> Option.bind (Some 2) (findUserById sampleUsers) = Some (sampleUsers ! 1)
      \<and> \<not> u_isActive (sampleUsers ! 1)"
    by code_simp
  have d: "authenticate sampleVerify sampleUsers ?r2 = Inl (ApiError 403 ''Account has been deactivated'')"
    using authenticate_guards_routes [of ?r2 sampleVerify sampleUsers "''tok2''" "Some 2"
        "sampleUsers ! 1" "sampleUser 1 True" ?h] t2
    by blast
  have t1: "requestToken ?r1 = Some ''tok1'' \<and> ''tok1'' \<noteq> [] \<and> sampleVerify ''tok1'' = Decoded (Some 1)
      \<and> findUserById sampleUsers 1 = Some (sampleUser 1 True) \<and> u_isActive (sampleUser 1 True)"
    by code_simp
  have e: "authenticate sampleVerify sampleUsers ?r1 = Inr (sampleUser 1 True)"
    using authenticate_guards_routes [of ?r1 sampleVerify sampleUsers "''tok1''" "Some 1"
        "sampleUser 1 True" "sampleUser 1 True" ?h] t1
    by blast
  have f: "protectedRoute sampleVerify sampleUsers ?h ?r1 = ?h (sampleUser 1 True)"
    using authenticate_guards_routes [of ?r1 sampleVerify sampleUsers "''tok1''" "Some 1"
        "sampleUser 1 True" "sampleUser 1 True" ?h] e
    by blast
  have f': "?h (sampleUser 1 True) = Json 200 ''Asha''"
    by (simp add: sampleUser_def)
  have g: "protectedRoute sampleVerify sampleUsers ?h ?r2 = ApiError 403 ''Account has been deactivated''"
    using d by (simp add: protectedRoute_def)
  show ?thesis
    using a told vold bex b c d e f f' g by simp
qed

section \<open>The time window of cancellations\<close>

lemma hours_window: "((of_int d :: rat) / (1000 * 3600) < 2) = (d < 2 * 3600 * 1000)"
proof -
  have "((of_int d :: rat) / (1000 * 3600) < 2) = ((of_int d :: rat) < of_int (2 * 3600 * 1000))"
    by (simp add: field_simps)
  also have "\<dots> = (d < 2 * 3600 * 1000)"
    by (simp only: of_int_less_iff)
  finally show ?thesis .
qed

lemma cancel_too_late:
  assumes "find (\<lambda>a. a_id a = aid \<and> patient a = pid
                     \<and> a_status a \<in> set [''scheduled'', ''confirmed'']) appts = Some a"
    and "appointmentDate a - now < 2 * 3600 * 1000"
  shows "cancelAppointment appts now pid aid reason
     = (ApiError 400 ''Appointments can only be cancelled at least 2 hours before the scheduled time'',
        appts)"
proof -
  have "(of_int (appointmentDate a - now) :: rat) / (1000 * 3600) < 2"
    using assms(2) hours_window [of "appointmentDate a - now"] by blast
  then show ?thesis
    using assms(1) unfolding cancelAppointment_def Let_def by simp
qed

lemma cancel_in_time:
  assumes "find (\<lambda>a. a_id a = aid \<and> patient a = pid
                     \<and> a_status a \<in> set [''scheduled'', ''confirmed'']) appts = Some a"
    and "2 * 3600 * 1000 \<le> appointmentDate a - now"
  shows "\<forall>c m. fst (cancelAppointment appts now pid aid reason) \<noteq> ApiError c m"
proof -
  have "\<not> (of_int (appointmentDate a - now) :: rat) / (1000 * 3600) < 2"
    using assms(2) hours_window [of "appointmentDate a - now"] by linarith
  then show ?thesis
    using assms(1) unfolding cancelAppointment_def Let_def
    by (auto split: prod.splits option.splits)
qed

text \<open>
  C8 (amended). Besides mapping raised errors to status codes, an endpoint
  applies a failure rule of its own: \<open>cancelAppointment\<close> rejects with 400,
  leaving the collection as it was, when the appointment of the patient is less
  than two hours away, and raises no \<open>ApiError\<close> when it is two hours away or
  more.
\<close>

theorem operation_specific_failure_rules:
  "(find (\<lambda>a. a_id a = aid \<and> patient a = pid
                     \<and> a_status a \<in> set [''scheduled'', ''confirmed'']) appts = Some a
      \<and> appointmentDate a - now < 2 * 3600 * 1000 \<longrightarrow>
      cancelAppointment appts now pid aid reason
        = (ApiError 400 ''Appointments can only be cancelled at least 2 hours before the scheduled time'',
           appts))
   \<and> (find (\<lambda>a. a_id a = aid \<and> patient a = pid
                     \<and> a_status a \<in> set [''scheduled'', ''confirmed'']) appts = Some a
      \<and> 2 * 3600 * 1000 \<le> appointmentDate a - now \<longrightarrow>
      (\<forall>c m. fst (cancelAppointment appts now pid aid reason) \<noteq> ApiError c m))"
  using cancel_too_late [of aid pid appts a now reason] cancel_in_time [of aid pid appts a now reason]
  by blast

text \<open>
  The claim C8 as stated fails: the same cancellation succeeds two hours before
  the appointment and is refused, with nothing changed, one millisecond later.
\<close>

theorem cancellation_time_window:
  "fst (cancelAppointment sampleAppts (1800000000000 - 7200000) 1 2 [])
      = Json 200 ''Appointment cancelled successfully''
   \<and> map a_status (snd (cancelAppointment sampleAppts (1800000000000 - 7200000) 1 2 []))
      = [''cancelled'', ''cancelled'']
   \<and> cancelAppointment sampleAppts (1800000000000 - 7199999) 1 2 []
      = (ApiError 400 ''Appointments can only be cancelled at least 2 hours before the scheduled time'',
         sampleAppts)"
  by code_simp

text \<open>The amended C8 at the sample appointments: a late and a timely cancellation.\<close>

theorem operation_specific_failure_rules_witness:
  "find (\<lambda>a. a_id a = 2 \<and> patient a = 1 \<and> a_status a \<in> set [''scheduled'', ''confirmed''])
       sampleAppts = Some (sampleAppts ! 1)
   \<and> appointmentDate (sampleAppts ! 1) - 1799996400000 < 2 * 3600 * 1000
   \<and> cancelAppointment sampleAppts 1799996400000 1 2 ''busy''
        = (ApiError 400 ''Appointments can only be cancelled at least 2 hours before the scheduled time'',
           sampleAppts)
   \<and> 2 * 3600 * 1000 \<le> appointmentDate (sampleAppts ! 1) - 1799992800000
   \<and> fst (cancelAppointment sampleAppts 1799992800000 1 2 ''busy'')
        \<noteq> ApiError 400 ''Appointments can only be cancelled at least 2 hours before the scheduled time''
   \<and> fst (cancelAppointment sampleAppts 1799992800000 1 2 ''busy'')
        = Json 200 ''Appointment cancelled successfully''"
proof -
  have f: "find (\<lambda>a. a_id a = 2 \<and> patient a = 1 \<and> a_status a \<in> set [''scheduled'', ''confirmed''])
       sampleAppts = Some (sampleAppts ! 1)"
    by code_simp
  have late: "appointmentDate (sampleAppts ! 1) - 1799996400000 < 2 * 3600 * 1000"
    by code_simp
  have early: "2 * 3600 * 1000 \<le> appointmentDate (sampleAppts ! 1) - 1799992800000"
    by code_simp
  have r1: "cancelAppointment sampleAppts 1799996400000 1 2 ''busy''
        = (ApiError 400 ''Appointments can only be cancelled at least 2 hours before the scheduled time'',
           sampleAppts)"
    using operation_specific_failure_rules
      [of 2 1 sampleAppts "sampleAppts ! 1" 1799996400000 "''busy''"] f late
    by blast
  have r2: "fst (cancelAppointment sampleAppts 1799992800000 1 2 ''busy'')
        \<noteq> ApiError 400 ''Appointments can only be cancelled at least 2 hours before the scheduled time''"
    using operation_specific_failure_rules
      [of 2 1 sampleAppts "sampleAppts ! 1" 1799992800000 "''busy''"] f early
    by blast
  have r3: "fst (cancelAppointment sampleAppts 1799992800000 1 2 ''busy'')
        = Json 200 ''Appointment cancelled successfully''"
    by code_simp
  show ?thesis
    using f late r1 early r2 r3 by blast
qed

section \<open>Conversations: one open conversation per user\<close>

lemma insertConversation_ok:
  "insertConversation coll c = (None, coll') \<Longrightarrow>
     coll' = coll @ [c] \<and> validateConversation c \<and> conversationId c \<notin> set (map conversationId coll)"
  by (auto simp: insertConversation_def split: if_splits)

lemma updateConversation_ok:
  "updateConversation coll c = (None, coll') \<Longrightarrow>
     coll' = map (\<lambda>d. if conversationId d = conversationId c then c else d) coll
     \<and> validateConversation c"
  by (auto simp: updateConversation_def split: if_splits)

lemma replace_fresh:
  "cid \<notin> set (map conversationId coll) \<Longrightarrow>
     map (\<lambda>d. if conversationId d = cid then c else d) coll = coll"
  by (induction coll) auto

lemma closeOpen_none:
  "filter (isOpen uid)
     (map (\<lambda>c. if isOpen uid c then c\<lparr>c_isActive := False, c_status := ''cancelled''\<rparr> else c) coll)
   = []"
  by (induction coll) (auto simp: isOpen_def)

lemma closeOpen_ids:
  "map conversationId
     (map (\<lambda>c. if isOpen uid c then c\<lparr>c_isActive := False, c_status := ''cancelled''\<rparr> else c) coll)
   = map conversationId coll"
  by (induction coll) auto

lemma greeting_valid:
  "cid \<noteq> [] \<Longrightarrow>
     validateConversation (addMessage (newConversation uid cid now) now ''agent'' greeting ''text''
        (Some ''symptom_analyzer'') (Some 1))"
  by (simp add: validateConversation_def addMessage_def newConversation_def validMessage_def
      conversationStatuses_def conversationSteps_def senders_def messageTypes_def trim_def
      greeting_def isSpace_def)

lemma newConversation_valid: "cid \<noteq> [] \<Longrightarrow> validateConversation (newConversation uid cid now)"
  by (simp add: validateConversation_def newConversation_def conversationStatuses_def
      conversationSteps_def)

lemma startNewConversation_result:
  assumes "startNewConversation coll now uid cid = (Json 201 m, coll')"
  shows "coll' = map (\<lambda>c. if isOpen uid c then c\<lparr>c_isActive := False, c_status := ''cancelled''\<rparr> else c) coll
            @ [addMessage (newConversation uid cid now) now ''agent'' greeting ''text''
                 (Some ''symptom_analyzer'') (Some 1)]"
proof -
  let ?coll1 = "map (\<lambda>c. if isOpen uid c then c\<lparr>c_isActive := False, c_status := ''cancelled''\<rparr> else c) coll"
  let ?conv = "newConversation uid cid now"
  let ?conv' = "addMessage ?conv now ''agent'' greeting ''text'' (Some ''symptom_analyzer'') (Some 1)"
  from assms obtain coll2 where i: "insertConversation ?coll1 ?conv = (None, coll2)"
    and u: "updateConversation coll2 ?conv' = (None, coll')"
    unfolding startNewConversation_def Let_def
    by (auto split: prod.splits option.splits)
  from insertConversation_ok [OF i] have c2: "coll2 = ?coll1 @ [?conv]"
    and fresh: "conversationId ?conv \<notin> set (map conversationId ?coll1)"
    by auto
  have id: "conversationId ?conv' = conversationId ?conv"
    by (simp add: addMessage_def)
  from updateConversation_ok [OF u]
  have "coll' = map (\<lambda>d. if conversationId d = conversationId ?conv' then ?conv' else d) coll2"
    by simp
  also have "\<dots> = map (\<lambda>d. if conversationId d = conversationId ?conv then ?conv' else d) ?coll1 @ [?conv']"
    unfolding c2 id by simp
  also have "map (\<lambda>d. if conversationId d = conversationId ?conv then ?conv' else d) ?coll1 = ?coll1"
    using fresh by (rule replace_fresh)
  finally show ?thesis .
qed

lemma startNewConversation_completes:
  assumes "cid \<noteq> []" "cid \<notin> set (map conversationId coll)"
  shows "fst (startNewConversation coll now uid cid) = Json 201 ''New conversation started successfully''"
proof -
  let ?coll1 = "map (\<lambda>c. if isOpen uid c then c\<lparr>c_isActive := False, c_status := ''cancelled''\<rparr> else c) coll"
  let ?conv = "newConversation uid cid now"
  have "conversationId ?conv \<notin> set (map conversationId ?coll1)"
    using assms(2) unfolding closeOpen_ids by (simp add: newConversation_def)
  then have i: "insertConversation ?coll1 ?conv = (None, ?coll1 @ [?conv])"
    using newConversation_valid [OF assms(1)] by (simp add: insertConversation_def)
  show ?thesis
    unfolding startNewConversation_def Let_def i
    using greeting_valid [OF assms(1)] by (simp add: updateConversation_def)
qed

text \<open>
  C10. When \<open>startNewConversation\<close> completes for a user, exactly one
  conversation of that user is active with a status other than \<open>completed\<close> and
  \<open>cancelled\<close>: the new one, with status \<open>started\<close> and step
  \<open>initial_greeting\<close>; every conversation of the user that was open before has
  been marked cancelled and inactive. The operation completes whenever the
  generated conversation id is not yet in the collection.
\<close>

theorem startNewConversation_single_open:
  "(startNewConversation coll now uid cid = (Json 201 m, coll') \<longrightarrow>
      (\<exists>c. filter (isOpen uid) coll' = [c] \<and> conversationId c = cid \<and> c_user c = uid
           \<and> c_isActive c \<and> c_status c = ''started'' \<and> currentStep c = ''initial_greeting''))
   \<and> (cid \<noteq> [] \<and> cid \<notin> set (map conversationId coll) \<longrightarrow>
      fst (startNewConversation coll now uid cid) = Json 201 ''New conversation started successfully'')"
proof -
  have a: "startNewConversation coll now uid cid = (Json 201 m, coll') \<longrightarrow>
      (\<exists>c. filter (isOpen uid) coll' = [c] \<and> conversationId c = cid \<and> c_user c = uid
           \<and> c_isActive c \<and> c_status c = ''started'' \<and> currentStep c = ''initial_greeting'')"
  proof
    assume "startNewConversation coll now uid cid = (Json 201 m, coll')"
    from startNewConversation_result [OF this]
    have "filter (isOpen uid) coll'
        = [addMessage (newConversation uid cid now) now ''agent'' greeting ''text''
                 (Some ''symptom_analyzer'') (Some 1)]"
      by (simp add: closeOpen_none) (simp add: isOpen_def addMessage_def newConversation_def)
    then show "\<exists>c. filter (isOpen uid) coll' = [c] \<and> conversationId c = cid \<and> c_user c = uid
           \<and> c_isActive c \<and> c_status c = ''started'' \<and> currentStep c = ''initial_greeting''"
      by (simp add: addMessage_def newConversation_def)
  qed
  show ?thesis
    using a startNewConversation_completes [of cid coll now uid] by blast
qed

text \<open>The operation at the sample conversations of user 1.\<close>

theorem startNewConversation_single_open_witness:
  "''c-9'' \<noteq> [] \<and> ''c-9'' \<notin> set (map conversationId sampleConvs)
   \<and> fst (startNewConversation sampleConvs 1700000000000 1 ''c-9'')
        = Json 201 ''New conversation started successfully''
   \<and> map (\<lambda>c. (conversationId c, c_status c, c_isActive c))
         (snd (startNewConversation sampleConvs 1700000000000 1 ''c-9''))
        = [(''c-1'', ''cancelled'', False), (''c-2'', ''completed'', False),
           (''c-3'', ''gathering_symptoms'', True), (''c-9'', ''started'', True)]
   \<and> (\<exists>c. filter (isOpen 1) (snd (startNewConversation sampleConvs 1700000000000 1 ''c-9'')) = [c]
          \<and> conversationId c = ''c-9'' \<and> c_status c = ''started''
          \<and> currentStep c = ''initial_greeting'')"
proof -
  have h: "''c-9'' \<noteq> [] \<and> ''c-9'' \<notin> set (map conversationId sampleConvs)"
    by code_simp
  have r: "fst (startNewConversation sampleConvs 1700000000000 1 ''c-9'')
        = Json 201 ''New conversation started successfully''"
    using startNewConversation_single_open [of sampleConvs 1700000000000 1 "''c-9''"] h by blast
  then have e: "startNewConversation sampleConvs 1700000000000 1 ''c-9''
      = (Json 201 ''New conversation started successfully'',
         snd (startNewConversation sampleConvs 1700000000000 1 ''c-9''))"
    by (metis prod.collapse)
  have l: "map (\<lambda>c. (conversationId c, c_status c, c_isActive c))
         (snd (startNewConversation sampleConvs 1700000000000 1 ''c-9''))
        = [(''c-1'', ''cancelled'', False), (''c-2'', ''completed'', False),
           (''c-3'', ''gathering_symptoms'', True), (''c-9'', ''started'', True)]"
    by code_simp
  have s: "\<exists>c. filter (isOpen 1) (snd (startNewConversation sampleConvs 1700000000000 1 ''c-9'')) = [c]
          \<and> conversationId c = ''c-9'' \<and> c_status c = ''started''
          \<and> currentStep c = ''initial_greeting''"
    using startNewConversation_single_open [of sampleConvs 1700000000000 1 "''c-9''"
        "''New conversation started successfully''"
        "snd (startNewConversation sampleConvs 1700000000000 1 ''c-9'')"] e
    by blast
  show ?thesis
    using h r l s by blast
qed

section \<open>Chat: the agent service is down\<close>

lemma trim_idem: "trim (trim s) = trim s"
proof (cases "dropWhile isSpace s")
  case Nil
  show ?thesis unfolding trim_def Nil by simp
next
  case (Cons x u)
  then have nx: "\<not> isSpace x"
    by (metis hd_dropWhile list.sel(1) list.distinct(1))
  let ?w = "dropWhile isSpace (rev u)"
  have t: "trim s = x # rev ?w"
    unfolding trim_def Cons using nx by (simp add: dropWhile_append3)
  have "trim (x # rev ?w) = rev (dropWhile isSpace (?w @ [x]))"
    using nx by (simp add: trim_def)
  also have "\<dots> = rev (dropWhile isSpace ?w @ [x])"
    using nx by (simp add: dropWhile_append3)
  also have "\<dots> = x # rev ?w"
    by (simp add: dropWhile_idem)
  finally show ?thesis
    using t by simp
qed

lemma callAIAgentService_down:
  "\<forall>r. call \<noteq> Reply r \<Longrightarrow> callAIAgentService call = fallbackResponse"
  by (cases call) (auto simp: callAIAgentService_def)

lemma trim_fallback: "trim (ar_message fallbackResponse) = ar_message fallbackResponse"
  by code_simp

lemma fallback_nonempty: "ar_message fallbackResponse \<noteq> []"
  by (simp add: fallbackResponse_def)

lemma applyAgentResponse_fallback:
  "applyAgentResponse (addMessage conv now ''user'' (trim msg) ''text'' None None) now fallbackResponse
     = afterFallback conv now msg"
  unfolding applyAgentResponse_def Let_def updateStatus_def addMessage_def afterFallback_def
  using trim_fallback by (simp add: fallbackResponse_def trim_idem)

lemma afterFallback_valid:
  assumes "validateConversation conv" "trim msg \<noteq> []"
  shows "validateConversation (afterFallback conv now msg)"
  using assms fallback_nonempty
  by (simp add: validateConversation_def afterFallback_def validMessage_def
      conversationStatuses_def senders_def messageTypes_def)

lemma processMessage_down:
  assumes "\<forall>r. call \<noteq> Reply r" "validateConversation conv" "trim msg \<noteq> []"
  shows "processMessage known coll now conv msg call
     = (Json 200 ''Message processed successfully'',
        map (\<lambda>d. if conversationId d = conversationId conv then afterFallback conv now msg else d) coll)"
proof -
  have id: "conversationId (afterFallback conv now msg) = conversationId conv"
    by (simp add: afterFallback_def)
  show ?thesis
    unfolding processMessage_def Let_def callAIAgentService_down [OF assms(1)]
      applyAgentResponse_fallback
    using afterFallback_valid [OF assms(2,3)] id
    by (simp add: updateConversation_def afterFallback_def)
qed

lemma find_conv_mem:
  "find (\<lambda>c. conversationId c = cid \<and> c_user c = uid \<and> c_isActive c) coll = Some conv \<Longrightarrow>
     conv \<in> set coll \<and> conversationId conv = cid"
  by (auto simp: find_Some_iff)

lemma replaced_mem:
  "conv \<in> set coll \<Longrightarrow>
     c' \<in> set (map (\<lambda>d. if conversationId d = conversationId conv then c' else d) coll)"
  by (induction coll) auto

lemma chat_existing_down:
  assumes down: "\<forall>r. call \<noteq> Reply r" and m: "trim msg \<noteq> []" and c: "cid \<noteq> []"
    and f: "find (\<lambda>c. conversationId c = cid \<and> c_user c = uid \<and> c_isActive c) coll = Some conv"
    and e: "\<not> isExpired conv now" and v: "validateConversation conv"
  shows "fst (chatWithAgent known coll now uid msg (Some cid) newId call)
           = Json 200 ''Message processed successfully''
       \<and> afterFallback conv now msg \<in> set (snd (chatWithAgent known coll now uid msg (Some cid) newId call))"
proof -
  have "chatWithAgent known coll now uid msg (Some cid) newId call = processMessage known coll now conv msg call"
    using m c f e by (simp add: chatWithAgent_def chatExisting_def)
  with processMessage_down [OF down v m, of known coll now] find_conv_mem [OF f]
    replaced_mem [of conv coll "afterFallback conv now msg"]
  show ?thesis by simp
qed

lemma chat_new_down:
  assumes down: "\<forall>r. call \<noteq> Reply r" and m: "trim msg \<noteq> []" and n: "newId \<noteq> []"
    and fresh: "newId \<notin> set (map conversationId coll)"
  shows "fst (chatWithAgent known coll now uid msg None newId call)
           = Json 200 ''Message processed successfully''
       \<and> afterFallback (newConversation uid newId now) now msg
            \<in> set (snd (chatWithAgent known coll now uid msg None newId call))"
proof -
  let ?conv = "newConversation uid newId now"
  have v: "validateConversation ?conv"
    using n by (simp add: validateConversation_def newConversation_def conversationStatuses_def
        conversationSteps_def)
  have i: "insertConversation coll ?conv = (None, coll @ [?conv])"
    using v fresh by (simp add: insertConversation_def newConversation_def)
  have "chatWithAgent known coll now uid msg None newId call
      = processMessage known (coll @ [?conv]) now ?conv msg call"
    using m by (simp add: chatWithAgent_def chatNew_def Let_def i)
  with processMessage_down [OF down v m, of known "coll @ [?conv]" now]
    replaced_mem [of ?conv "coll @ [?conv]" "afterFallback ?conv now msg"]
  show ?thesis by simp
qed

text \<open>
  C7. When the HTTP call to the agent service throws, answers with a status that
  is not OK, or answers with a body that is no JSON, \<open>callAIAgentService\<close>
  returns the fixed fallback response (agent type \<open>system\<close>, confidence 0, new
  status \<open>error\<close>), and \<open>chatWithAgent\<close>, for a message that reaches the agent
  call in a stored or in a new conversation, answers 200 and stores the
  conversation with the fallback message appended as an agent message and the
  status \<open>error\<close>.
\<close>

theorem chat_agent_down_fallback:
  "((\<forall>r. call \<noteq> Reply r) \<longrightarrow>
      callAIAgentService call = fallbackResponse
      \<and> ar_agentType (callAIAgentService call) = Some ''system''
      \<and> ar_confidence (callAIAgentService call) = Some 0
      \<and> newStatus (callAIAgentService call) = Some ''error'')
   \<and> ((\<forall>r. call \<noteq> Reply r) \<and> trim msg \<noteq> [] \<and> cid \<noteq> []
       \<and> find (\<lambda>c. conversationId c = cid \<and> c_user c = uid \<and> c_isActive c) coll = Some conv
       \<and> \<not> isExpired conv now \<and> validateConversation conv \<longrightarrow>
      fst (chatWithAgent known coll now uid msg (Some cid) newId call)
           = Json 200 ''Message processed successfully''
      \<and> afterFallback conv now msg \<in> set (snd (chatWithAgent known coll now uid msg (Some cid) newId call)))
   \<and> ((\<forall>r. call \<noteq> Reply r) \<and> trim msg \<noteq> [] \<and> newId \<noteq> []
       \<and> newId \<notin> set (map conversationId coll) \<longrightarrow>
      fst (chatWithAgent known coll now uid msg None newId call)
           = Json 200 ''Message processed successfully''
      \<and> afterFallback (newConversation uid newId now) now msg
            \<in> set (snd (chatWithAgent known coll now uid msg None newId call)))
   \<and> c_status (afterFallback conv now msg) = ''error''
   \<and> conversationId (afterFallback conv now msg) = conversationId conv
   \<and> last (messages (afterFallback conv now msg))
        = \<lparr>sender = ''agent'', content = ar_message fallbackResponse, messageType = ''text'',
           agentType = Some ''system'', confidence = Some 0, timestamp = now\<rparr>"
proof -
  have a: "(\<forall>r. call \<noteq> Reply r) \<longrightarrow>
      callAIAgentService call = fallbackResponse
      \<and> ar_agentType (callAIAgentService call) = Some ''system''
      \<and> ar_confidence (callAIAgentService call) = Some 0
      \<and> newStatus (callAIAgentService call) = Some ''error''"
    using callAIAgentService_down [of call] by (auto simp: fallbackResponse_def)
  have d: "c_status (afterFallback conv now msg) = ''error''
   \<and> conversationId (afterFallback conv now msg) = conversationId conv
   \<and> last (messages (afterFallback conv now msg))
        = \<lparr>sender = ''agent'', content = ar_message fallbackResponse, messageType = ''text'',
           agentType = Some ''system'', confidence = Some 0, timestamp = now\<rparr>"
    by (simp add: afterFallback_def)
  show ?thesis
    using a d chat_existing_down [of call msg cid uid coll conv now known newId]
      chat_new_down [of call msg newId coll known now uid]
    by blast
qed

text \<open>The fallback at the sample conversations: a stored conversation and a new one.\<close>

theorem chat_agent_down_fallback_witness:
  "callAIAgentService (NotOk 503) = fallbackResponse
   \<and> trim ''  I have a headache '' \<noteq> []
   \<and> find (\<lambda>c. conversationId c = ''c-1'' \<and> c_user c = 1 \<and> c_isActive c) sampleConvs
        = Some (sampleConvs ! 0)
   \<and> \<not> isExpired (sampleConvs ! 0) 1700000000000 \<and> validateConversation (sampleConvs ! 0)
   \<and> fst (chatWithAgent noAppointments sampleConvs 1700000000000 1 ''  I have a headache '' (Some ''c-1'') ''c-9'' (NotOk 503))
        = Json 200 ''Message processed successfully''
   \<and> afterFallback (sampleConvs ! 0) 1700000000000 ''  I have a headache ''
        \<in> set (snd (chatWithAgent noAppointments sampleConvs 1700000000000 1 ''  I have a headache '' (Some ''c-1'') ''c-9'' (NotOk 503)))
   \<and> statusOf (snd (chatWithAgent noAppointments sampleConvs 1700000000000 1 ''  I have a headache '' (Some ''c-1'') ''c-9'' (NotOk 503))) ''c-1''
        = Some ''error''
   \<and> ''c-9'' \<notin> set (map conversationId sampleConvs)
   \<and> fst (chatWithAgent noAppointments sampleConvs 1700000000000 1 ''  I have a headache '' None ''c-9'' FetchThrows)
        = Json 200 ''Message processed successfully''
   \<and> statusOf (snd (chatWithAgent noAppointments sampleConvs 1700000000000 1 ''  I have a headache '' None ''c-9'' FetchThrows)) ''c-9''
        = Some ''error''"
proof -
  let ?msg = "''  I have a headache ''"
  have d1: "\<forall>r. NotOk 503 \<noteq> Reply r" by simp
  have d2: "\<forall>r. FetchThrows \<noteq> Reply r" by simp
  have m: "trim ?msg \<noteq> []" by code_simp
  have f: "find (\<lambda>c. conversationId c = ''c-1'' \<and> c_user c = 1 \<and> c_isActive c) sampleConvs
        = Some (sampleConvs ! 0)"
    by code_simp
  have e: "\<not> isExpired (sampleConvs ! 0) 1700000000000 \<and> validateConversation (sampleConvs ! 0)"
    by code_simp
  have n: "''c-1'' \<noteq> [] \<and> ''c-9'' \<noteq> [] \<and> ''c-9'' \<notin> set (map conversationId sampleConvs)"
    by code_simp
  have a: "callAIAgentService (NotOk 503) = fallbackResponse"
    using chat_agent_down_fallback [of "NotOk 503" ?msg "''c-1''" 1 sampleConvs "sampleConvs ! 0"
        1700000000000 noAppointments "''c-9''"] d1
    by blast
  have b: "fst (chatWithAgent noAppointments sampleConvs 1700000000000 1 ?msg (Some ''c-1'') ''c-9'' (NotOk 503))
        = Json 200 ''Message processed successfully''
      \<and> afterFallback (sampleConvs ! 0) 1700000000000 ?msg
        \<in> set (snd (chatWithAgent noAppointments sampleConvs 1700000000000 1 ?msg (Some ''c-1'') ''c-9'' (NotOk 503)))"
    using chat_agent_down_fallback [of "NotOk 503" ?msg "''c-1''" 1 sampleConvs "sampleConvs ! 0"
        1700000000000 noAppointments "''c-9''"] d1 m f e n
    by blast
  have c: "fst (chatWithAgent noAppointments sampleConvs 1700000000000 1 ?msg None ''c-9'' FetchThrows)
        = Json 200 ''Message processed successfully''"
    using chat_agent_down_fallback [of FetchThrows ?msg "''c-1''" 1 sampleConvs "sampleConvs ! 0"
        1700000000000 noAppointments "''c-9''"] d2 m n
    by blast
  have s1: "statusOf (snd (chatWithAgent noAppointments sampleConvs 1700000000000 1 ?msg (Some ''c-1'') ''c-9'' (NotOk 503))) ''c-1''
        = Some ''error''"
    by code_simp
  have s2: "statusOf (snd (chatWithAgent noAppointments sampleConvs 1700000000000 1 ?msg None ''c-9'' FetchThrows)) ''c-9''
        = Some ''error''"
    by code_simp
  show ?thesis
    using a m f e b s1 n c s2 by blast
qed

section \<open>Conversations: the status and its transitions\<close>

lemma statusesInEnum_update:
  "statusesInEnum coll \<Longrightarrow> statusesInEnum (snd (updateConversation coll c))"
  by (auto simp: statusesInEnum_def updateConversation_def validateConversation_def list_all_iff)

lemma statusesInEnum_insert:
  "statusesInEnum coll \<Longrightarrow> statusesInEnum (snd (insertConversation coll c))"
  by (auto simp: statusesInEnum_def insertConversation_def validateConversation_def list_all_iff)

lemma statusesInEnum_logAndFail:
  "statusesInEnum coll \<Longrightarrow> statusesInEnum (snd (logAndFail coll now c e))"
proof -
  assume a: "statusesInEnum coll"
  define c' where "c' = c\<lparr>errorLog := errorLog c @ [(e, currentStep c, now)]\<rparr>"
  have "snd (logAndFail coll now c e) = snd (updateConversation coll c')"
    by (simp add: logAndFail_def Let_def c'_def [symmetric] split: prod.splits option.splits)
  with statusesInEnum_update [OF a, of c'] show ?thesis by simp
qed

lemma statusesInEnum_process:
  assumes "statusesInEnum coll"
  shows "statusesInEnum (snd (processMessage known coll now conv msg call))"
proof -
  define c2 where "c2 = applyAgentResponse (addMessage conv now ''user'' (trim msg) ''text'' None None)
                          now (callAIAgentService call)"
  obtain e coll' where u: "updateConversation coll c2 = (e, coll')"
    by (cases "updateConversation coll c2")
  from statusesInEnum_update [OF assms, of c2] u have c': "statusesInEnum coll'"
    by simp
  show ?thesis
  proof (cases e)
    case None
    with u c' statusesInEnum_logAndFail [OF c'] show ?thesis
      by (simp add: processMessage_def Let_def c2_def [symmetric])
  next
    case (Some x)
    with u statusesInEnum_logAndFail [OF assms] show ?thesis
      by (simp add: processMessage_def Let_def c2_def [symmetric])
  qed
qed

lemma statusesInEnum_chatExisting:
  assumes "statusesInEnum coll"
  shows "statusesInEnum (snd (chatExisting known coll now uid msg cid call))"
proof (cases "find (\<lambda>c. conversationId c = cid \<and> c_user c = uid \<and> c_isActive c) coll")
  case None
  with assms show ?thesis by (simp add: chatExisting_def)
next
  case (Some conv)
  show ?thesis
  proof (cases "isExpired conv now")
    case True
    let ?c = "conv\<lparr>c_status := ''cancelled'', c_isActive := False\<rparr>"
    have "snd (chatExisting known coll now uid msg cid call) = snd (updateConversation coll ?c)"
      using Some True by (simp add: chatExisting_def split: prod.splits option.splits)
    with statusesInEnum_update [OF assms, of ?c] show ?thesis by simp
  next
    case False
    with Some statusesInEnum_process [OF assms] show ?thesis
      by (simp add: chatExisting_def)
  qed
qed

lemma statusesInEnum_chatNew:
  assumes "statusesInEnum coll"
  shows "statusesInEnum (snd (chatNew known coll now uid msg newId call))"
proof -
  let ?conv = "newConversation uid newId now"
  obtain e coll' where i: "insertConversation coll ?conv = (e, coll')"
    by (cases "insertConversation coll ?conv")
  from statusesInEnum_insert [OF assms, of ?conv] i have c': "statusesInEnum coll'"
    by simp
  show ?thesis
  proof (cases e)
    case None
    with i statusesInEnum_process [OF c'] show ?thesis
      by (simp add: chatNew_def Let_def)
  next
    case (Some x)
    with i c' show ?thesis
      by (simp add: chatNew_def Let_def)
  qed
qed

lemma statusesInEnum_chat:
  "statusesInEnum coll \<Longrightarrow>
     statusesInEnum (snd (chatWithAgent known coll now uid msg cidOpt newId call))"
  using statusesInEnum_chatExisting statusesInEnum_chatNew
  by (auto simp: chatWithAgent_def split: option.splits)

lemma statusesInEnum_end:
  assumes "statusesInEnum coll"
  shows "statusesInEnum (snd (endConversation coll now uid cid))"
proof (cases "find (\<lambda>c. conversationId c = cid \<and> c_user c = uid \<and> c_isActive c) coll")
  case None
  with assms show ?thesis by (simp add: endConversation_def)
next
  case (Some conv)
  let ?c = "addMessage (conv\<lparr>c_status := ''cancelled'', c_isActive := False\<rparr>) now
                      ''system'' ''Conversation ended by user'' ''text'' None None"
  have "snd (endConversation coll now uid cid) = snd (updateConversation coll ?c)"
    using Some by (simp add: endConversation_def Let_def split: prod.splits option.splits)
  with statusesInEnum_update [OF assms, of ?c] show ?thesis by simp
qed

lemma statusesInEnum_closeOpen:
  "statusesInEnum coll \<Longrightarrow>
     statusesInEnum (map (\<lambda>c. if isOpen uid c
                            then c\<lparr>c_isActive := False, c_status := ''cancelled''\<rparr> else c) coll)"
  by (auto simp: statusesInEnum_def list_all_iff conversationStatuses_def)

lemma statusesInEnum_start:
  assumes "statusesInEnum coll"
  shows "statusesInEnum (snd (startNewConversation coll now uid newId))"
proof -
  let ?coll1 = "map (\<lambda>c. if isOpen uid c
                            then c\<lparr>c_isActive := False, c_status := ''cancelled''\<rparr> else c) coll"
  let ?conv = "newConversation uid newId now"
  let ?conv' = "addMessage ?conv now ''agent'' greeting ''text'' (Some ''symptom_analyzer'') (Some 1)"
  obtain e coll2 where i: "insertConversation ?coll1 ?conv = (e, coll2)"
    by (cases "insertConversation ?coll1 ?conv")
  from statusesInEnum_insert [OF statusesInEnum_closeOpen [OF assms], of uid ?conv] i
  have c2: "statusesInEnum coll2" by simp
  show ?thesis
  proof (cases e)
    case None
    have "snd (startNewConversation coll now uid newId) = snd (updateConversation coll2 ?conv')"
      using i None by (simp add: startNewConversation_def Let_def split: prod.splits option.splits)
    with statusesInEnum_update [OF c2, of ?conv'] show ?thesis by simp
  next
    case (Some x)
    with i c2 show ?thesis
      by (simp add: startNewConversation_def Let_def)
  qed
qed

lemma find_replaced:
  "conv \<in> set coll \<Longrightarrow> conversationId c' = conversationId conv \<Longrightarrow>
     find (\<lambda>d. conversationId d = conversationId conv)
          (map (\<lambda>d. if conversationId d = conversationId conv then c' else d) coll) = Some c'"
  by (induction coll) auto

lemma statusOf_update:
  assumes "conv \<in> set coll" "conversationId c' = conversationId conv" "validateConversation c'"
  shows "updateConversation coll c'
           = (None, map (\<lambda>d. if conversationId d = conversationId conv then c' else d) coll)
       \<and> statusOf (snd (updateConversation coll c')) (conversationId conv) = Some (c_status c')"
  using assms find_replaced [OF assms(1,2)]
  by (simp add: updateConversation_def statusOf_def)

lemma status_nonempty: "s \<in> set conversationStatuses \<Longrightarrow> s \<noteq> []"
  by (auto simp: conversationStatuses_def)

lemma chat_sets_status:
  assumes m: "trim msg \<noteq> []" and c: "cid \<noteq> []"
    and f: "find (\<lambda>c. conversationId c = cid \<and> c_user c = uid \<and> c_isActive c) coll = Some conv"
    and e: "\<not> isExpired conv now" and v: "validateConversation conv"
    and s: "s \<in> set conversationStatuses"
    and r: "trim (ar_message r) \<noteq> []" "newStatus r = Some s" "newStep r = None"
      "ar_appointmentId r = None"
    and na: "c_appointmentId conv = None"
  shows "fst (chatWithAgent known coll now uid msg (Some cid) newId (Reply r))
           = Json 200 ''Message processed successfully''
       \<and> statusOf (snd (chatWithAgent known coll now uid msg (Some cid) newId (Reply r))) cid = Some s"
proof -
  define c1 where "c1 = addMessage conv now ''user'' (trim msg) ''text'' None None"
  define c2 where "c2 = applyAgentResponse c1 now r"
  have c2eq: "c2 = updateStatus (addMessage c1 now ''agent'' (ar_message r) ''text''
                      (ar_agentType r) (ar_confidence r)) now s None"
    using r status_nonempty [OF s] by (simp add: c2_def applyAgentResponse_def Let_def)
  have st: "c_status c2 = s" and id: "conversationId c2 = conversationId conv"
    and ap: "c_appointmentId c2 = None"
    using na by (simp_all add: c2eq c1_def updateStatus_def addMessage_def)
  have val: "validateConversation c2"
    using v m r(1) s
    by (simp add: c2eq c1_def updateStatus_def addMessage_def validateConversation_def
        validMessage_def senders_def messageTypes_def trim_idem)
  from find_conv_mem [OF f] have mem: "conv \<in> set coll" and cid: "conversationId conv = cid"
    by auto
  from statusOf_update [OF mem id val]
  have u: "updateConversation coll c2
           = (None, map (\<lambda>d. if conversationId d = conversationId conv then c2 else d) coll)"
    and so: "statusOf (snd (updateConversation coll c2)) cid = Some s"
    using st cid by auto
  have "chatWithAgent known coll now uid msg (Some cid) newId (Reply r) = processMessage known coll now conv msg (Reply r)"
    using m c f e by (simp add: chatWithAgent_def chatExisting_def)
  also have "\<dots> = (Json 200 ''Message processed successfully'', snd (updateConversation coll c2))"
    unfolding processMessage_def Let_def
    by (simp add: callAIAgentService_def c1_def [symmetric] c2_def [symmetric] u ap)
  finally show ?thesis
    using so by simp
qed

lemma end_sets_cancelled:
  assumes f: "find (\<lambda>c. conversationId c = cid \<and> c_user c = uid \<and> c_isActive c) coll = Some conv"
    and v: "validateConversation conv"
  shows "fst (endConversation coll now uid cid) = Json 200 ''Conversation ended successfully''
       \<and> statusOf (snd (endConversation coll now uid cid)) cid = Some ''cancelled''"
proof -
  define c1 where "c1 = addMessage (conv\<lparr>c_status := ''cancelled'', c_isActive := False\<rparr>) now
                      ''system'' ''Conversation ended by user'' ''text'' None None"
  have tr: "trim ''Conversation ended by user'' = ''Conversation ended by user''"
    by code_simp
  have st: "c_status c1 = ''cancelled''" and id: "conversationId c1 = conversationId conv"
    by (simp_all add: c1_def addMessage_def)
  have val: "validateConversation c1"
    using v
    by (simp add: c1_def addMessage_def validateConversation_def validMessage_def senders_def
        messageTypes_def conversationStatuses_def tr)
  from find_conv_mem [OF f] have mem: "conv \<in> set coll" and cid: "conversationId conv = cid"
    by auto
  from statusOf_update [OF mem id val]
  have u: "updateConversation coll c1
           = (None, map (\<lambda>d. if conversationId d = conversationId conv then c1 else d) coll)"
    and so: "statusOf (snd (updateConversation coll c1)) cid = Some ''cancelled''"
    using st cid by auto
  have "endConversation coll now uid cid
      = (Json 200 ''Conversation ended successfully'', snd (updateConversation coll c1))"
    using f by (simp add: endConversation_def Let_def c1_def [symmetric] u)
  then show ?thesis
    using so by simp
qed

text \<open>
  C2 (amended). The status of every stored conversation is one of the eleven
  values of the enum, and \<open>chatWithAgent\<close>, \<open>startNewConversation\<close> and
  \<open>endConversation\<close> keep it so. No order of the statuses is enforced:
  \<open>updateStatus\<close> sets whatever status it is given, \<open>complete\<close> sets
  \<open>completed\<close>, \<open>endConversation\<close> sets \<open>cancelled\<close>, and \<open>chatWithAgent\<close>
  stores the status that the agent's reply names, whichever of the eleven it is
  and whatever the status was before.
\<close>

theorem conversation_status_transitions:
  "c_status (updateStatus c now s step) = s
   \<and> c_status (complete c now a) = ''completed''
   \<and> (statusesInEnum coll \<longrightarrow>
        statusesInEnum (snd (chatWithAgent known coll now uid msg cidOpt newId call))
        \<and> statusesInEnum (snd (startNewConversation coll now uid newId))
        \<and> statusesInEnum (snd (endConversation coll now uid cid)))
   \<and> (trim msg \<noteq> [] \<and> cid \<noteq> []
       \<and> find (\<lambda>c. conversationId c = cid \<and> c_user c = uid \<and> c_isActive c) coll = Some conv
       \<and> \<not> isExpired conv now \<and> validateConversation conv
       \<and> s \<in> set conversationStatuses
       \<and> trim (ar_message r) \<noteq> [] \<and> newStatus r = Some s \<and> newStep r = None
       \<and> ar_appointmentId r = None \<and> c_appointmentId conv = None \<longrightarrow>
        fst (chatWithAgent known coll now uid msg (Some cid) newId (Reply r))
           = Json 200 ''Message processed successfully''
        \<and> statusOf (snd (chatWithAgent known coll now uid msg (Some cid) newId (Reply r))) cid = Some s)
   \<and> (find (\<lambda>c. conversationId c = cid \<and> c_user c = uid \<and> c_isActive c) coll = Some conv
       \<and> validateConversation conv \<longrightarrow>
        fst (endConversation coll now uid cid) = Json 200 ''Conversation ended successfully''
        \<and> statusOf (snd (endConversation coll now uid cid)) cid = Some ''cancelled'')"
proof -
  have a: "c_status (updateStatus c now s step) = s \<and> c_status (complete c now a) = ''completed''"
    by (simp add: updateStatus_def complete_def)
  show ?thesis
    using a statusesInEnum_chat [of coll known now uid msg cidOpt newId call]
      statusesInEnum_start [of coll now uid newId] statusesInEnum_end [of coll now uid cid]
      chat_sets_status [of msg cid uid coll conv now s r known newId]
      end_sets_cancelled [of cid uid coll conv now]
    by blast
qed

text \<open>
  The claim C2 as stated fails: a reply of the agent takes a conversation from
  \<open>selecting_slot\<close> back to \<open>started\<close>, and ending a conversation takes it to
  \<open>cancelled\<close>, which is outside the linear order.
\<close>

theorem status_moves_backward:
  "statusOf sampleConvs ''c-1'' = Some ''selecting_slot''
   \<and> fst (chatWithAgent noAppointments sampleConvs 1700000000000 1 ''hi'' (Some ''c-1'') ''c-9'' (Reply rewindReply))
        = Json 200 ''Message processed successfully''
   \<and> statusOf (snd (chatWithAgent noAppointments sampleConvs 1700000000000 1 ''hi'' (Some ''c-1'') ''c-9'' (Reply rewindReply))) ''c-1''
        = Some ''started''
   \<and> \<not> movesForward ''selecting_slot'' ''started''
   \<and> movesForward ''started'' ''selecting_slot''
   \<and> c_status (updateStatus (sampleConvs ! 0) 1700000000000 ''started'' None) = ''started''
   \<and> statusOf (snd (endConversation sampleConvs 1700000000000 1 ''c-1'')) ''c-1'' = Some ''cancelled''
   \<and> \<not> movesForward ''selecting_slot'' ''cancelled''"
  by code_simp

text \<open>The amended C2 at the sample conversations.\<close>

theorem conversation_status_transitions_witness:
  "statusesInEnum sampleConvs
   \<and> statusesInEnum (snd (chatWithAgent noAppointments sampleConvs 1700000000000 1 ''hi'' (Some ''c-1'') ''c-9'' (Reply rewindReply)))
   \<and> statusesInEnum (snd (startNewConversation sampleConvs 1700000000000 1 ''c-9''))
   \<and> statusesInEnum (snd (endConversation sampleConvs 1700000000000 1 ''c-1''))
   \<and> find (\<lambda>c. conversationId c = ''c-1'' \<and> c_user c = 1 \<and> c_isActive c) sampleConvs
        = Some (sampleConvs ! 0)
   \<and> ''started'' \<in> set conversationStatuses \<and> newStatus rewindReply = Some ''started''
   \<and> fst (chatWithAgent noAppointments sampleConvs 1700000000000 1 ''hi'' (Some ''c-1'') ''c-9''
             (Reply (rewindReply\<lparr>newStep := None\<rparr>)))
        = Json 200 ''Message processed successfully''
   \<and> statusOf (snd (chatWithAgent noAppointments sampleConvs 1700000000000 1 ''hi'' (Some ''c-1'') ''c-9''
             (Reply (rewindReply\<lparr>newStep := None\<rparr>)))) ''c-1'' = Some ''started''
   \<and> statusOf (snd (endConversation sampleConvs 1700000000000 1 ''c-1'')) ''c-1'' = Some ''cancelled''"
proof -
  let ?r = "rewindReply\<lparr>newStep := None\<rparr>"
  have inv: "statusesInEnum sampleConvs" by code_simp
  have h: "trim ''hi'' \<noteq> [] \<and> ''c-1'' \<noteq> []
      \<and> find (\<lambda>c. conversationId c = ''c-1'' \<and> c_user c = 1 \<and> c_isActive c) sampleConvs
           = Some (sampleConvs ! 0)
      \<and> \<not> isExpired (sampleConvs ! 0) 1700000000000 \<and> validateConversation (sampleConvs ! 0)
      \<and> ''started'' \<in> set conversationStatuses
      \<and> trim (ar_message ?r) \<noteq> [] \<and> newStatus ?r = Some ''started'' \<and> newStep ?r = None
      \<and> ar_appointmentId ?r = None \<and> c_appointmentId (sampleConvs ! 0) = None"
    by code_simp
  have ns: "newStatus rewindReply = Some ''started''" by code_simp
  have i1: "statusesInEnum (snd (chatWithAgent noAppointments sampleConvs 1700000000000 1 ''hi'' (Some ''c-1'') ''c-9'' (Reply rewindReply)))
      \<and> statusesInEnum (snd (startNewConversation sampleConvs 1700000000000 1 ''c-9''))
      \<and> statusesInEnum (snd (endConversation sampleConvs 1700000000000 1 ''c-1''))"
    using conversation_status_transitions [of "sampleConvs ! 0" 1700000000000 "''started''" None None
        sampleConvs noAppointments 1 "''hi''" "Some ''c-1''" "''c-9''" "Reply rewindReply" "''c-1''" "sampleConvs ! 0" ?r] inv
    by blast
  have t: "fst (chatWithAgent noAppointments sampleConvs 1700000000000 1 ''hi'' (Some ''c-1'') ''c-9'' (Reply ?r))
        = Json 200 ''Message processed successfully''
      \<and> statusOf (snd (chatWithAgent noAppointments sampleConvs 1700000000000 1 ''hi'' (Some ''c-1'') ''c-9'' (Reply ?r))) ''c-1''
        = Some ''started''"
    using conversation_status_transitions [of "sampleConvs ! 0" 1700000000000 "''started''" None None
        sampleConvs noAppointments 1 "''hi''" "Some ''c-1''" "''c-9''" "Reply rewindReply" "''c-1''" "sampleConvs ! 0" ?r] h
    by blast
  have en: "statusOf (snd (endConversation sampleConvs 1700000000000 1 ''c-1'')) ''c-1'' = Some ''cancelled''"
    using conversation_status_transitions [of "sampleConvs ! 0" 1700000000000 "''started''" None None
        sampleConvs noAppointments 1 "''hi''" "Some ''c-1''" "''c-9''" "Reply rewindReply" "''c-1''" "sampleConvs ! 0" ?r] h
    by blast
  show ?thesis
    using inv i1 h ns t en by blast
qed

end
